theory Spec2Isabelle
  imports Complex_Main
begin

section \<open>Numbers, errors and JavaScript arrays\<close>

text \<open>
  The program is TypeScript. Its \<open>number\<close> values that measure time are modelled as exact
  rationals (\<open>rat\<close>), array indices and counters as \<open>int\<close>. A thrown exception is a value
  \<open>Inl e\<close> of the result type \<open>error + 'a\<close>.
\<close>

datatype error =
    TypeError       \<comment> \<open>a property of \<open>undefined\<close> or \<open>null\<close> is read or written\<close>
  | ArgumentError   \<comment> \<open>\<open>throw new Error(...)\<close> of \<open>ActionManager.addAction\<close> and \<open>Sequence\<close>\<close>

text \<open>
  A JavaScript array of \<open>T\<close>. \<open>items\<close> are the properties \<open>0 .. length - 1\<close>, where
  \<open>None\<close> is \<open>undefined\<close> (a hole reads as \<open>undefined\<close> too); \<open>others\<close> are the properties
  stored under negative keys, which do not count for \<open>length\<close>.
\<close>

record 'a js_array =
  items :: "'a option list"
  others :: "int \<Rightarrow> 'a option"

definition js_empty :: "'a js_array" where
  "js_empty = \<lparr>items = [], others = (\<lambda>_. None)\<rparr>"

definition js_length :: "'a js_array \<Rightarrow> int" where
  "js_length a = int (length (items a))"

text \<open>\<open>a[i]\<close>: a read outside the array is \<open>undefined\<close>.\<close>

definition js_get :: "'a js_array \<Rightarrow> int \<Rightarrow> 'a option" where
  "js_get a i =
     (if i < 0 then others a i
      else if i < js_length a then items a ! nat i
      else None)"

text \<open>\<open>a[i] = v\<close>: a write at or past \<open>length\<close> extends the array, leaving holes.\<close>

definition js_set :: "'a js_array \<Rightarrow> int \<Rightarrow> 'a option \<Rightarrow> 'a js_array" where
  "js_set a i v =
     (if i < 0 then a\<lparr>others := (others a)(i := v)\<rparr>
      else if i < js_length a then a\<lparr>items := (items a)[nat i := v]\<rparr>
      else a\<lparr>items := items a @ replicate (nat i - length (items a)) None @ [v]\<rparr>)"

definition js_push :: "'a js_array \<Rightarrow> 'a \<Rightarrow> 'a js_array" where
  "js_push a x = a\<lparr>items := items a @ [Some x]\<rparr>"

text \<open>\<open>a.pop()\<close>: \<open>undefined\<close> on an empty array, which stays empty.\<close>

definition js_pop :: "'a js_array \<Rightarrow> 'a option \<times> 'a js_array" where
  "js_pop a =
     (if items a = [] then (None, a)
      else (last (items a), a\<lparr>items := butlast (items a)\<rparr>))"

section \<open>heap.ts: the containers\<close>

text \<open>
  \<open>interface Container<T>\<close>: the methods \<open>Heap\<close> calls, as a table of functions over the
  container's state \<open>'c\<close>.
\<close>

record ('a, 'c) Container =
  size_c :: "'c \<Rightarrow> int"
  get_c :: "'c \<Rightarrow> int \<Rightarrow> 'a option"
  swap_c :: "int \<Rightarrow> int \<Rightarrow> 'c \<Rightarrow> error + 'c"
  less_c :: "int \<Rightarrow> int \<Rightarrow> 'c \<Rightarrow> error + bool"
  pushBack_c :: "'a \<Rightarrow> 'c \<Rightarrow> error + 'c"
  popBack_c :: "'c \<Rightarrow> 'a option \<times> 'c"

text \<open>
  \<open>class Array<T>\<close>. \<open>lessFn\<close> is the comparison given to the constructor; it is called
  with the two slots' values, \<open>undefined\<close> included, and may throw. (Without one, \<open>less\<close>
  compares the two values by \<open><\<close>, which is one such function.)
\<close>

record 'a Array =
  elems :: "'a js_array"
  lessFn :: "'a option \<Rightarrow> 'a option \<Rightarrow> error + bool"

definition Array_new :: "'a list \<Rightarrow> ('a option \<Rightarrow> 'a option \<Rightarrow> error + bool) \<Rightarrow> 'a Array" where
  "Array_new xs f = \<lparr>elems = \<lparr>items = map Some xs, others = (\<lambda>_. None)\<rparr>, lessFn = f\<rparr>"

definition Array_size :: "('a, 'z) Array_scheme \<Rightarrow> int" where
  "Array_size c = js_length (elems c)"

definition Array_get :: "('a, 'z) Array_scheme \<Rightarrow> int \<Rightarrow> 'a option" where
  "Array_get c i = js_get (elems c) i"

definition Array_less :: "int \<Rightarrow> int \<Rightarrow> ('a, 'z) Array_scheme \<Rightarrow> error + bool" where
  "Array_less i j c = lessFn c (js_get (elems c) i) (js_get (elems c) j)"

definition Array_swap :: "int \<Rightarrow> int \<Rightarrow> ('a, 'z) Array_scheme \<Rightarrow> ('a, 'z) Array_scheme" where
  "Array_swap i j c =
     (let tmp = js_get (elems c) i;
          e1 = js_set (elems c) i (js_get (elems c) j);
          e2 = js_set e1 j tmp
      in c\<lparr>elems := e2\<rparr>)"

definition Array_pushBack :: "'a \<Rightarrow> ('a, 'z) Array_scheme \<Rightarrow> ('a, 'z) Array_scheme" where
  "Array_pushBack x c = c\<lparr>elems := js_push (elems c) x\<rparr>"

definition Array_popBack :: "('a, 'z) Array_scheme \<Rightarrow> 'a option \<times> ('a, 'z) Array_scheme" where
  "Array_popBack c = (case js_pop (elems c) of (x, e) \<Rightarrow> (x, c\<lparr>elems := e\<rparr>))"

definition Array_ops :: "('a, 'a Array) Container" where
  "Array_ops =
     \<lparr>size_c = Array_size, get_c = Array_get,
      swap_c = (\<lambda>i j c. Inr (Array_swap i j c)), less_c = Array_less,
      pushBack_c = (\<lambda>x c. Inr (Array_pushBack x c)), popBack_c = Array_popBack\<rparr>"

text \<open>
  \<open>class Map<T extends Identifiable> extends Array<T>\<close>: the array and an object
  \<open>indices\<close> from an element's \<open>id\<close> to an index. An element is a record with the field
  \<open>id_num\<close>, the value that reading \<open>x.id\<close> gives.
\<close>

record identifiable =
  id_num :: int

record 'a Map = "'a Array" +
  indices :: "int \<Rightarrow> int option"

text \<open>The constructor records \<open>indices[elems[i].id] = i\<close> for every given element.\<close>

definition Map_new ::
  "'y identifiable_scheme list \<Rightarrow>
   ('y identifiable_scheme option \<Rightarrow> 'y identifiable_scheme option \<Rightarrow> error + bool) \<Rightarrow>
   'y identifiable_scheme Map" where
  "Map_new xs f =
     \<lparr>elems = \<lparr>items = map Some xs, others = (\<lambda>_. None)\<rparr>, lessFn = f,
      indices = fold (\<lambda>i m. m(id_num (xs ! i) \<mapsto> int i)) [0 ..< length xs] Map.empty\<rparr>"

text \<open>
  The assignment \<open>x.id = i\<close> to an element. What it does depends on how the class of the
  element declares \<open>id\<close>, so the model takes it as an argument \<open>assign\<close> of the
  container's methods. For an element whose \<open>id\<close> is a data property the value is stored
  (\<open>data_id_assign\<close>).
\<close>

definition data_id_assign :: "'y identifiable_scheme \<Rightarrow> int \<Rightarrow> error + 'y identifiable_scheme" where
  "data_id_assign x i = Inr (x\<lparr>id_num := i\<rparr>)"

text \<open>
  \<open>Map.swap\<close>: exchanges the two slots, then assigns \<open>this.elems[i].id = i\<close> and
  \<open>this.elems[j].id = j\<close>; writing \<open>id\<close> of an \<open>undefined\<close> slot throws. \<open>indices\<close> is not
  touched.
\<close>

definition set_id ::
  "('a \<Rightarrow> int \<Rightarrow> error + 'a) \<Rightarrow> 'a js_array \<Rightarrow> int \<Rightarrow> error + 'a js_array" where
  "set_id assign e i =
     (case js_get e i of
        None \<Rightarrow> Inl TypeError
      | Some x \<Rightarrow>
          (case assign x i of
             Inl err \<Rightarrow> Inl err
           | Inr x' \<Rightarrow> Inr (js_set e i (Some x'))))"

definition Map_swap ::
  "('a \<Rightarrow> int \<Rightarrow> error + 'a) \<Rightarrow> int \<Rightarrow> int \<Rightarrow> 'a Map \<Rightarrow> error + 'a Map" where
  "Map_swap assign i j c =
     (let tmp = js_get (elems c) i;
          e1 = js_set (elems c) i (js_get (elems c) j);
          e2 = js_set e1 j tmp
      in case set_id assign e2 i of
           Inl err \<Rightarrow> Inl err
         | Inr e3 \<Rightarrow>
             (case set_id assign e3 j of
                Inl err \<Rightarrow> Inl err
              | Inr e4 \<Rightarrow> Inr (c\<lparr>elems := e4\<rparr>)))"

definition Map_pushBack ::
  "'y identifiable_scheme \<Rightarrow> 'y identifiable_scheme Map \<Rightarrow> 'y identifiable_scheme Map" where
  "Map_pushBack x c =
     c\<lparr>indices := (indices c)(id_num x \<mapsto> js_length (elems c)),
       elems := js_push (elems c) x\<rparr>"

definition Map_popBack ::
  "'y identifiable_scheme Map \<Rightarrow> 'y identifiable_scheme option \<times> 'y identifiable_scheme Map" where
  "Map_popBack c =
     (case js_pop (elems c) of
        (None, e) \<Rightarrow> (None, c\<lparr>elems := e\<rparr>)
      | (Some x, e) \<Rightarrow> (Some x, c\<lparr>elems := e, indices := (indices c)(id_num x := None)\<rparr>))"

definition Map_indexof :: "'y identifiable_scheme Map \<Rightarrow> int \<Rightarrow> int" where
  "Map_indexof c k = (case indices c k of Some i \<Rightarrow> i | None \<Rightarrow> - 1)"

definition Map_ops ::
  "('y identifiable_scheme \<Rightarrow> int \<Rightarrow> error + 'y identifiable_scheme) \<Rightarrow>
   ('y identifiable_scheme, 'y identifiable_scheme Map) Container" where
  "Map_ops assign =
     \<lparr>size_c = Array_size, get_c = Array_get,
      swap_c = Map_swap assign, less_c = Array_less,
      pushBack_c = (\<lambda>x c. Inr (Map_pushBack x c)), popBack_c = Map_popBack\<rparr>"

section \<open>heap.ts: the heap\<close>

text \<open>
  \<open>Heap._up(j)\<close>. \<open>i >> 1\<close> on a non-negative index is \<open>i div 2\<close>. The loop ends: \<open>j\<close>
  decreases, and a negative \<open>j\<close> is followed by \<open>0\<close>.
\<close>

function Heap_up :: "('a, 'c) Container \<Rightarrow> int \<Rightarrow> 'c \<Rightarrow> error + 'c" where
  "Heap_up ops j c =
     (let i = (if j - 1 \<ge> 0 then (j - 1) div 2 else 0)
      in if i = j then Inr c
         else (case less_c ops j i c of
                 Inl e \<Rightarrow> Inl e
               | Inr b \<Rightarrow>
                   if \<not> b then Inr c
                   else (case swap_c ops i j c of
                           Inl e \<Rightarrow> Inl e
                         | Inr c' \<Rightarrow> Heap_up ops i c')))"
  by pat_completeness auto
termination
  by (relation "measure (\<lambda>(ops, j, c). if j < 0 then 1 else nat j)") auto

text \<open>
  The loop of \<open>Heap._down(i0, n)\<close>, returning the last \<open>i\<close> and the container;
  \<open>j2 < n && less(j2, j1)\<close> calls \<open>less\<close> only when \<open>j2 < n\<close>.
\<close>

function Heap_down_loop :: "('a, 'c) Container \<Rightarrow> int \<Rightarrow> int \<Rightarrow> 'c \<Rightarrow> error + (int \<times> 'c)" where
  "Heap_down_loop ops i n c =
     (let j1 = 2 * i + 1
      in if j1 \<ge> n \<or> j1 < 0 then Inr (i, c)
         else (let j2 = j1 + 1
               in case (if j2 < n then less_c ops j2 j1 c else Inr False) of
                    Inl e \<Rightarrow> Inl e
                  | Inr b \<Rightarrow>
                      (let j = (if b then j2 else j1)
                       in case less_c ops j i c of
                            Inl e \<Rightarrow> Inl e
                          | Inr b2 \<Rightarrow>
                              if \<not> b2 then Inr (i, c)
                              else (case swap_c ops i j c of
                                      Inl e \<Rightarrow> Inl e
                                    | Inr c' \<Rightarrow> Heap_down_loop ops j n c'))))"
  by pat_completeness auto
termination
  by (relation "measure (\<lambda>(ops, i, n, c). nat (n - i))") (auto split: if_splits)

definition Heap_down :: "('a, 'c) Container \<Rightarrow> int \<Rightarrow> int \<Rightarrow> 'c \<Rightarrow> error + (bool \<times> 'c)" where
  "Heap_down ops i0 n c =
     (case Heap_down_loop ops i0 n c of
        Inl e \<Rightarrow> Inl e
      | Inr (i, c') \<Rightarrow> Inr (i > i0, c'))"

definition Heap_size :: "('a, 'c) Container \<Rightarrow> 'c \<Rightarrow> int" where
  "Heap_size ops c = size_c ops c"

definition Heap_push :: "('a, 'c) Container \<Rightarrow> 'a \<Rightarrow> 'c \<Rightarrow> error + 'c" where
  "Heap_push ops x c =
     (case pushBack_c ops x c of
        Inl e \<Rightarrow> Inl e
      | Inr c1 \<Rightarrow> Heap_up ops (size_c ops c1 - 1) c1)"

definition Heap_pop :: "('a, 'c) Container \<Rightarrow> 'c \<Rightarrow> error + ('a option \<times> 'c)" where
  "Heap_pop ops c =
     (let n = size_c ops c - 1
      in case swap_c ops 0 n c of
           Inl e \<Rightarrow> Inl e
         | Inr c1 \<Rightarrow>
             (case Heap_down ops 0 n c1 of
                Inl e \<Rightarrow> Inl e
              | Inr (_, c2) \<Rightarrow> Inr (popBack_c ops c2)))"

definition Heap_remove :: "('a, 'c) Container \<Rightarrow> int \<Rightarrow> 'c \<Rightarrow> error + ('a option \<times> 'c)" where
  "Heap_remove ops i c =
     (let n = size_c ops c - 1
      in if n \<noteq> i then
           (case swap_c ops i n c of
              Inl e \<Rightarrow> Inl e
            | Inr c1 \<Rightarrow>
                (case Heap_down ops i n c1 of
                   Inl e \<Rightarrow> Inl e
                 | Inr (moved, c2) \<Rightarrow>
                     if \<not> moved then
                       (case Heap_up ops i c2 of
                          Inl e \<Rightarrow> Inl e
                        | Inr c3 \<Rightarrow> Inr (popBack_c ops c3))
                     else Inr (popBack_c ops c2)))
         else Inr (popBack_c ops c))"

section \<open>Handler.ts, Ticker.ts: handlers and timers\<close>

text \<open>
  \<open>class Handler\<close> wraps a function of the host program and its arguments. The model
  names a handler by a number and records each \<open>call()\<close> in the scheduler's list
  \<open>fired\<close>; what the host function does beyond being called is not modelled.
\<close>

type_synonym Handler = nat

text \<open>
  \<open>class Timer\<close>; the fields \<open>$begin\<close>, \<open>$times\<close>, \<open>$next\<close> are \<open>begin_t\<close>,
  \<open>times_t\<close>, \<open>next_t\<close>, and \<open>$id\<close> is the inherited \<open>id_num\<close>.
\<close>

record Timer = identifiable +
  handler :: Handler
  begin_t :: rat
  interval :: rat
  once :: bool
  times_t :: int
  next_t :: rat

text \<open>
  \<open>Timer\<close> declares \<open>id\<close> by a getter (\<open>public get id()\<close>) and gives it no setter.
  An assignment \<open>timer.id = i\<close> therefore never changes \<open>$id\<close>: in strict code it throws
  a \<open>TypeError\<close>, in code that is not strict it does nothing. Module code and class
  bodies are always strict code, and the assignment is made in \<open>Map.swap\<close>, a method of
  a class in a module: the program is the instance \<open>strict = True\<close>. The instance
  \<open>strict = False\<close> is the same text run as code that is not strict, kept for
  comparison only.
\<close>

definition Timer_id_assign :: "bool \<Rightarrow> Timer \<Rightarrow> int \<Rightarrow> error + Timer" where
  "Timer_id_assign strict t i = (if strict then Inl TypeError else Inr t)"

text \<open>
  The constructor, given the static counter \<open>Timer.$nextId\<close>: it returns the timer and the
  incremented counter.
\<close>

definition Timer_new :: "Handler \<Rightarrow> rat \<Rightarrow> rat \<Rightarrow> bool \<Rightarrow> int \<Rightarrow> Timer \<times> int" where
  "Timer_new h b iv oc nextId =
     (\<lparr>id_num = nextId + 1, handler = h, begin_t = b, interval = iv, once = oc,
       times_t = 0, next_t = b + iv\<rparr>,
      nextId + 1)"

text \<open>
  \<open>Timer.call()\<close>: calls the handler, counts the call, recomputes \<open>$next\<close>, and returns
  \<open>$once\<close>. The result is the called handler, the updated timer and the returned flag.
\<close>

definition Timer_call :: "Timer \<Rightarrow> Handler \<times> Timer \<times> bool" where
  "Timer_call t =
     (let t1 = t\<lparr>times_t := times_t t + 1\<rparr>;
          t2 = t1\<lparr>next_t := begin_t t1 + interval t1 * of_int (times_t t1 + 1)\<rparr>
      in (handler t, t2, once t2))"

section \<open>Director: the timer scheduler\<close>

text \<open>
  The comparison given to \<open>heap.map<Timer>\<close>: \<open>t1.next() < t2.next()\<close>, which throws when
  either argument is \<open>undefined\<close>.
\<close>

definition timer_less :: "Timer option \<Rightarrow> Timer option \<Rightarrow> error + bool" where
  "timer_less a b =
     (case a of
        None \<Rightarrow> Inl TypeError
      | Some t1 \<Rightarrow> (case b of None \<Rightarrow> Inl TypeError | Some t2 \<Rightarrow> Inr (next_t t1 < next_t t2)))"

text \<open>
  The part of \<open>Director\<close>'s static state the scheduler uses: the heap \<open>$timers\<close>, the
  counter \<open>Timer.$nextId\<close>, and the list of handler calls made so far (oldest first).
\<close>

record Director =
  timers :: "Timer Map"
  nextId :: int
  fired :: "Handler list"

definition Director_init :: Director where
  "Director_init = \<lparr>timers = Map_new [] timer_less, nextId = 0, fired = []\<rparr>"

text \<open>The methods of the container of \<open>$timers\<close>.\<close>

definition Timer_ops :: "bool \<Rightarrow> (Timer, Timer Map) Container" where
  "Timer_ops strict = Map_ops (Timer_id_assign strict)"

text \<open>
  \<open>setInterval\<close> and \<open>setTimeout\<close>; the reading of the clock \<open>this.now()\<close> is the
  argument \<open>now\<close>. They return the timer's id.
\<close>

definition Director_setInterval ::
  "bool \<Rightarrow> Handler \<Rightarrow> rat \<Rightarrow> rat \<Rightarrow> Director \<Rightarrow> error + (int \<times> Director)" where
  "Director_setInterval strict h iv now d =
     (case Timer_new h now iv False (nextId d) of
        (ticker, nid) \<Rightarrow>
          (case Heap_push (Timer_ops strict) ticker (timers d) of
             Inl e \<Rightarrow> Inl e
           | Inr c \<Rightarrow> Inr (id_num ticker, d\<lparr>timers := c, nextId := nid\<rparr>)))"

definition Director_setTimeout ::
  "bool \<Rightarrow> Handler \<Rightarrow> rat \<Rightarrow> rat \<Rightarrow> Director \<Rightarrow> error + (int \<times> Director)" where
  "Director_setTimeout strict h timeout now d =
     (case Timer_new h now timeout True (nextId d) of
        (ticker, nid) \<Rightarrow>
          (case Heap_push (Timer_ops strict) ticker (timers d) of
             Inl e \<Rightarrow> Inl e
           | Inr c \<Rightarrow> Inr (id_num ticker, d\<lparr>timers := c, nextId := nid\<rparr>)))"

definition Director_clearInterval :: "bool \<Rightarrow> int \<Rightarrow> Director \<Rightarrow> error + Director" where
  "Director_clearInterval strict k d =
     (let i = Map_indexof (timers d) k
      in if i \<ge> 0 then
           (case Heap_remove (Timer_ops strict) i (timers d) of
              Inl e \<Rightarrow> Inl e
            | Inr (_, c) \<Rightarrow> Inr (d\<lparr>timers := c\<rparr>))
         else Inr d)"

text \<open>
  \<open>Director.scheduleTimers(now)\<close>. The loop has no bound of its own (a repeating timer
  whose interval is not positive is due forever), so the function is partial: \<open>None\<close> is a
  pass that does not return, \<open>Some (Inl e)\<close> a pass ended by an exception.
\<close>

partial_function (option) scheduleTimers ::
  "bool \<Rightarrow> rat \<Rightarrow> Director \<Rightarrow> (error + Director) option" where
  "scheduleTimers strict now d =
     (if Heap_size (Timer_ops strict) (timers d) > 0 then
        (case get_c (Timer_ops strict) (timers d) 0 of
           None \<Rightarrow> Some (Inl TypeError)
         | Some t0 \<Rightarrow>
             if next_t t0 > now then Some (Inr d)
             else (case Heap_pop (Timer_ops strict) (timers d) of
                     Inl e \<Rightarrow> Some (Inl e)
                   | Inr (None, c) \<Rightarrow> Some (Inl TypeError)
                   | Inr (Some ticker, c) \<Rightarrow>
                       (case Timer_call ticker of
                          (h, ticker', stop) \<Rightarrow>
                            if \<not> stop then
                              (case Heap_push (Timer_ops strict) ticker' c of
                                 Inl e \<Rightarrow> Some (Inl e)
                               | Inr c' \<Rightarrow>
                                   scheduleTimers strict now
                                     (d\<lparr>timers := c', fired := fired d @ [h]\<rparr>))
                            else scheduleTimers strict now
                                   (d\<lparr>timers := c, fired := fired d @ [h]\<rparr>))))
      else Some (Inr d))"

declare scheduleTimers.simps [code]

section \<open>Action.ts: actions, interval actions and easing\<close>

text \<open>
  \<open>FLT_EPSILON = 0.0000001192092896\<close>.
\<close>

definition FLT_EPSILON :: rat where
  "FLT_EPSILON = 1192092896 / 10000000000000000"

text \<open>
  \<open>util.Vector3\<close> with its components \<open>x\<close>, \<open>y\<close>, \<open>z\<close> (\<open>vx\<close>, \<open>vy\<close>, \<open>vz\<close>), and the part
  of a target node (\<open>THREE.Object3D\<close>) the actions read and write. An action refers to
  its target by the node's \<open>id\<close>; \<open>None\<close> is \<open>null\<close>.
\<close>

record Vector3 =
  vx :: rat
  vy :: rat
  vz :: rat

definition vec3 :: "rat \<Rightarrow> rat \<Rightarrow> rat \<Rightarrow> Vector3" where
  "vec3 a b c = \<lparr>vx = a, vy = b, vz = c\<rparr>"

record Node =
  node_id :: nat
  position :: Vector3
  rotation :: Vector3
  scale :: Vector3

text \<open>
  \<open>interface Easing { easing(dt); reverse() }\<close>: the two methods of an easing object,
  over the type \<open>'e\<close> of easing objects. What the built-in easings compute
  (\<open>Math.pow\<close>, \<open>Math.sin\<close>, \<open>Math.cos\<close>) is not modelled.
\<close>

record 'e Easing =
  easing :: "'e \<Rightarrow> rat \<Rightarrow> rat"
  reverse_e :: "'e \<Rightarrow> 'e"

text \<open>
  The fields of \<open>class Action\<close>, \<open>class FiniteTimeAction\<close> and \<open>class ActionInterval\<close>.
  \<open>$times\<close> (\<open>times_a\<close>) is \<open>None\<close> while it is \<open>undefined\<close>; \<open>$duration\<close> is
  \<open>duration_a\<close>; \<open>$easeList\<close> is \<open>None\<close> while it is \<open>undefined\<close>.
\<close>

record Action =
  originalTarget :: "nat option"
  target :: "nat option"
  tag :: int

record FiniteTimeAction = Action +
  times_a :: "rat option"
  duration_a :: rat

record 'e ActionInterval = FiniteTimeAction +
  elapsed :: rat
  firstTick :: bool
  easeList :: "'e list option"
  forever :: bool
  speed :: rat

definition ACTION_TAG_INVALID :: int where
  "ACTION_TAG_INVALID = - 1"

text \<open>The getters \<open>times\<close> and \<open>duration\<close> of \<open>FiniteTimeAction\<close>.\<close>

definition times_of :: "'z FiniteTimeAction_scheme \<Rightarrow> rat" where
  "times_of a = (case times_a a of None \<Rightarrow> 1 | Some n \<Rightarrow> if n = 0 then 1 else n)"

definition duration_of :: "'z FiniteTimeAction_scheme \<Rightarrow> rat" where
  "duration_of a =
     duration_a a * (case times_a a of None \<Rightarrow> 1 | Some n \<Rightarrow> if n = 0 then 1 else n)"

text \<open>
  \<open>new ActionInterval(d)\<close>: the constructors of \<open>Action\<close> and \<open>FiniteTimeAction\<close>, then
  \<open>$initWithDuration(d)\<close>.
\<close>

definition ActionInterval_new :: "rat \<Rightarrow> 'e ActionInterval" where
  "ActionInterval_new d =
     \<lparr>originalTarget = None, target = None, tag = ACTION_TAG_INVALID,
      times_a = None, duration_a = (if d = 0 then FLT_EPSILON else d),
      elapsed = 0, firstTick = True, easeList = None, forever = False, speed = 1\<rparr>"

definition initWithDuration :: "rat \<Rightarrow> ('e, 'z) ActionInterval_scheme \<Rightarrow> ('e, 'z) ActionInterval_scheme" where
  "initWithDuration d a =
     a\<lparr>duration_a := (if d = 0 then FLT_EPSILON else d), elapsed := 0, firstTick := True\<rparr>"

definition ActionInterval_isDone :: "('e, 'z) ActionInterval_scheme \<Rightarrow> bool" where
  "ActionInterval_isDone a = (elapsed a \<ge> duration_a a)"

definition cloneDecoration ::
  "('e, 'y) ActionInterval_scheme \<Rightarrow> ('e, 'z) ActionInterval_scheme \<Rightarrow> ('e, 'z) ActionInterval_scheme" where
  "cloneDecoration this action =
     action\<lparr>forever := forever this, speed := speed this, times_a := times_a this,
            easeList := easeList this\<rparr>"

definition reverseEaseList ::
  "'e Easing \<Rightarrow> ('e, 'y) ActionInterval_scheme \<Rightarrow> ('e, 'z) ActionInterval_scheme \<Rightarrow>
   ('e, 'z) ActionInterval_scheme" where
  "reverseEaseList E this action =
     (case easeList this of
        None \<Rightarrow> action
      | Some l \<Rightarrow> action\<lparr>easeList := Some (map (reverse_e E) l)\<rparr>)"

text \<open>\<open>easing(...)\<close> replaces the list by its arguments.\<close>

definition set_easing :: "'e list \<Rightarrow> ('e, 'z) ActionInterval_scheme \<Rightarrow> ('e, 'z) ActionInterval_scheme" where
  "set_easing es a = a\<lparr>easeList := Some es\<rparr>"

text \<open>\<open>$computeEaseTime(dt)\<close>: the loop applies \<open>locList[0]\<close> first.\<close>

definition computeEaseTime :: "'e Easing \<Rightarrow> ('e, 'z) ActionInterval_scheme \<Rightarrow> rat \<Rightarrow> rat" where
  "computeEaseTime E a dt =
     (case easeList a of
        None \<Rightarrow> dt
      | Some l \<Rightarrow> if l = [] then dt else foldl (\<lambda>t e. easing E e t) dt l)"

text \<open>\<open>Action.startWithTarget\<close>, \<open>Action.stop\<close> and \<open>ActionInterval.startWithTarget\<close>.\<close>

definition Action_startWithTarget :: "nat option \<Rightarrow> 'z Action_scheme \<Rightarrow> 'z Action_scheme" where
  "Action_startWithTarget t a = a\<lparr>originalTarget := t, target := t\<rparr>"

definition Action_stop :: "'z Action_scheme \<Rightarrow> 'z Action_scheme" where
  "Action_stop a = a\<lparr>target := None\<rparr>"

definition ActionInterval_startWithTarget ::
  "nat option \<Rightarrow> ('e, 'z) ActionInterval_scheme \<Rightarrow> ('e, 'z) ActionInterval_scheme" where
  "ActionInterval_startWithTarget t a =
     (Action_startWithTarget t a)\<lparr>elapsed := 0, firstTick := True\<rparr>"

text \<open>
  \<open>repeatForever()\<close> sets \<open>times\<close> to \<open>MAX_VALUE = 2\<close> and \<open>$forever\<close>.
\<close>

definition ActionInterval_repeatForever :: "('e, 'z) ActionInterval_scheme \<Rightarrow> ('e, 'z) ActionInterval_scheme" where
  "ActionInterval_repeatForever a = a\<lparr>times_a := Some 2, forever := True\<rparr>"

text \<open>
  \<open>ActionInterval.step(dt)\<close>. \<open>update\<close> and \<open>startWithTarget\<close> are virtual: the class's
  own ones are the arguments \<open>upd\<close> and \<open>start\<close> (\<open>start\<close> is
  \<open>this.startWithTarget(this.target)\<close>); \<open>isDone\<close> is that of \<open>ActionInterval\<close>, which
  the leaf actions inherit. The second component of the state lists the
  values given to \<open>update\<close>, oldest first. A repeating action whose \<open>$duration\<close> is
  negative restarts without end, so the function is partial.
\<close>

partial_function (option) ActionInterval_step ::
  "(rat \<Rightarrow> ('e, 'z) ActionInterval_scheme \<Rightarrow> ('e, 'z) ActionInterval_scheme) \<Rightarrow>
   (('e, 'z) ActionInterval_scheme \<Rightarrow> ('e, 'z) ActionInterval_scheme) \<Rightarrow>
   rat \<Rightarrow> ('e, 'z) ActionInterval_scheme \<times> rat list \<Rightarrow>
   (('e, 'z) ActionInterval_scheme \<times> rat list) option" where
  "ActionInterval_step upd start dt st =
     (case st of (a, given) \<Rightarrow>
        (let a1 = (if firstTick a then a\<lparr>firstTick := False, elapsed := 0\<rparr>
                   else a\<lparr>elapsed := elapsed a + dt\<rparr>);
             t = elapsed a1 / (if duration_a a1 > FLT_EPSILON then duration_a a1 else FLT_EPSILON);
             t1 = (if 1 > t then t else 1);
             t2 = (if t1 > 0 then t1 else 0);
             a2 = upd t2 a1
         in if (case times_a a2 of None \<Rightarrow> False | Some n \<Rightarrow> n > 1) \<and> ActionInterval_isDone a2
            then (let a3 = (if \<not> forever a2 then a2\<lparr>times_a := map_option (\<lambda>n. n - 1) (times_a a2)\<rparr>
                            else a2);
                      a4 = start a3
                  in ActionInterval_step upd start (elapsed a4 - duration_a a4) (a4, given @ [t2]))
            else Some (a2, given @ [t2])))"

declare ActionInterval_step.simps [code]

text \<open>\<open>Action.update\<close>, which \<open>ActionInterval\<close> inherits: it does nothing.\<close>

definition Action_update :: "rat \<Rightarrow> 'z Action_scheme \<Rightarrow> 'z Action_scheme" where
  "Action_update dt a = a"

text \<open>
  \<open>ActionInterval.reverse()\<close>: \<open>log.error(...)\<close>, then \<open>null\<close>. A \<open>reverse\<close> returns the
  action or \<open>null\<close> (\<open>None\<close>), or throws, together with the messages it has logged.
\<close>

definition ActionInterval_reverse :: "('e, 'z) ActionInterval_scheme \<Rightarrow> (error + 'r option) \<times> string list" where
  "ActionInterval_reverse a = (Inr None, [''cc.IntervalAction: reverse not implemented.''])"

section \<open>Action.ts: the leaf actions\<close>

text \<open>\<open>class MoveBy\<close> and \<open>class MoveTo extends MoveBy\<close> (\<open>$end\<close> is \<open>end_m\<close>).\<close>

record 'e MoveBy = "'e ActionInterval" +
  delta :: Vector3
  start :: Vector3
  prev :: Vector3

record 'e MoveTo = "'e MoveBy" +
  end_m :: Vector3

definition MoveBy_new :: "rat \<Rightarrow> Vector3 \<Rightarrow> 'e MoveBy" where
  "MoveBy_new d dl =
     ActionInterval.extend (ActionInterval_new d)
       (MoveBy.fields (vec3 (vx dl) (vy dl) (vz dl)) (vec3 0 0 0) (vec3 0 0 0))"

definition MoveTo_new :: "rat \<Rightarrow> Vector3 \<Rightarrow> 'e MoveTo" where
  "MoveTo_new d dst =
     MoveBy.extend (MoveBy_new d (vec3 0 0 0)) (MoveTo.fields (vec3 (vx dst) (vy dst) (vz dst)))"

definition MoveBy_startWithTarget :: "Node \<Rightarrow> ('e, 'z) MoveBy_scheme \<Rightarrow> ('e, 'z) MoveBy_scheme" where
  "MoveBy_startWithTarget n a =
     (ActionInterval_startWithTarget (Some (node_id n)) a)
       \<lparr>prev := vec3 (vx (position n)) (vy (position n)) (vz (position n)),
        start := vec3 (vx (position n)) (vy (position n)) (vz (position n))\<rparr>"

definition MoveTo_startWithTarget :: "Node \<Rightarrow> ('e, 'z) MoveTo_scheme \<Rightarrow> ('e, 'z) MoveTo_scheme" where
  "MoveTo_startWithTarget n a =
     (let a1 = MoveBy_startWithTarget n a
      in a1\<lparr>delta := vec3 (vx (end_m a1) - vx (position n)) (vy (end_m a1) - vy (position n))
                         (vz (end_m a1) - vz (position n))\<rparr>)"

text \<open>
  \<open>MoveBy.update(dt)\<close> with \<open>ENABLE_STACKABLE_ACTIONS = true\<close>; \<open>n\<close> is the target node
  as it is when the call is made. The result is the action and the node.
\<close>

definition MoveBy_update :: "'e Easing \<Rightarrow> rat \<Rightarrow> ('e, 'z) MoveBy_scheme \<Rightarrow> Node \<Rightarrow> ('e, 'z) MoveBy_scheme \<times> Node" where
  "MoveBy_update E dt0 a n =
     (let dt = computeEaseTime E a dt0
      in if target a \<noteq> None then
           (let st = vec3 (vx (start a) + (vx (position n) - vx (prev a)))
                          (vy (start a) + (vy (position n) - vy (prev a)))
                          (vz (start a) + (vz (position n) - vz (prev a)));
                p = vec3 (vx (delta a) * dt + vx st) (vy (delta a) * dt + vy st)
                         (vz (delta a) * dt + vz st)
            in (a\<lparr>start := st, prev := p\<rparr>, n\<lparr>position := p\<rparr>))
         else (a, n))"

text \<open>\<open>MoveBy.reverse()\<close>, which \<open>MoveTo\<close> inherits.\<close>

definition MoveBy_reverse :: "'e Easing \<Rightarrow> ('e, 'z) MoveBy_scheme \<Rightarrow> 'e MoveBy" where
  "MoveBy_reverse E this =
     (let action = MoveBy_new (duration_of this)
                     (vec3 (- vx (delta this)) (- vy (delta this)) (- vz (delta this)))
      in reverseEaseList E this (cloneDecoration this action))"

text \<open>\<open>class RotateBy\<close> (\<open>$angle\<close>, \<open>$start\<close>).\<close>

record 'e RotateBy = "'e ActionInterval" +
  angle :: Vector3
  start_rb :: "Vector3 option"

definition RotateBy_new :: "rat \<Rightarrow> Vector3 \<Rightarrow> 'e RotateBy" where
  "RotateBy_new d dl =
     ActionInterval.extend (ActionInterval_new d)
       (RotateBy.fields (vec3 (vx dl) (vy dl) (vz dl)) None)"

definition RotateBy_startWithTarget :: "Node \<Rightarrow> ('e, 'z) RotateBy_scheme \<Rightarrow> ('e, 'z) RotateBy_scheme" where
  "RotateBy_startWithTarget n a =
     (ActionInterval_startWithTarget (Some (node_id n)) a)
       \<lparr>start_rb := Some (vec3 (vx (rotation n)) (vy (rotation n)) (vz (rotation n)))\<rparr>"

text \<open>\<open>RotateBy.update(dt)\<close>; reading \<open>$start.x\<close> before any start throws.\<close>

definition RotateBy_update ::
  "'e Easing \<Rightarrow> rat \<Rightarrow> ('e, 'z) RotateBy_scheme \<Rightarrow> Node \<Rightarrow> error + (('e, 'z) RotateBy_scheme \<times> Node)" where
  "RotateBy_update E dt0 a n =
     (let dt = computeEaseTime E a dt0
      in if target a \<noteq> None then
           (case start_rb a of
              None \<Rightarrow> Inl TypeError
            | Some s \<Rightarrow>
                Inr (a, n\<lparr>rotation := vec3 (vx s + vx (angle a) * dt) (vy s + vy (angle a) * dt)
                                           (vz s + vz (angle a) * dt)\<rparr>))
         else Inr (a, n))"

definition RotateBy_reverse :: "'e Easing \<Rightarrow> ('e, 'z) RotateBy_scheme \<Rightarrow> 'e RotateBy" where
  "RotateBy_reverse E this =
     (let action = RotateBy_new (duration_of this)
                     (vec3 (- vx (angle this)) (- vy (angle this)) (- vz (angle this)))
      in reverseEaseList E this (cloneDecoration this action))"

text \<open>
  \<open>class RotateTo\<close> and \<open>class ScaleTo\<close>: their fields and constructors. Neither class
  defines \<open>reverse\<close>.
\<close>

record 'e RotateTo = "'e ActionInterval" +
  dst_rt :: Vector3
  start_rt :: "Vector3 option"
  delta_rt :: "Vector3 option"

definition RotateTo_new :: "rat \<Rightarrow> Vector3 \<Rightarrow> 'e RotateTo" where
  "RotateTo_new d dst =
     ActionInterval.extend (ActionInterval_new d)
       (RotateTo.fields (vec3 (vx dst) (vy dst) (vz dst)) None None)"

record 'e ScaleTo = "'e ActionInterval" +
  scaleXYZ :: Vector3
  startScale :: Vector3
  endScale :: Vector3
  dxyz :: Vector3

text \<open>\<open>new ScaleTo(duration, sx, sy?)\<close>; \<open>sy\<close> is \<open>None\<close> when it is not given.\<close>

definition ScaleTo_new :: "rat \<Rightarrow> rat \<Rightarrow> rat option \<Rightarrow> 'e ScaleTo" where
  "ScaleTo_new d sx sy =
     ActionInterval.extend (ActionInterval_new d)
       (ScaleTo.fields (vec3 1 1 1) (vec3 1 1 1)
          (vec3 sx (case sy of Some v \<Rightarrow> v | None \<Rightarrow> sx) 0) (vec3 0 0 0))"

text \<open>
  \<open>class BezierBy\<close> and \<open>class BezierTo extends BezierBy\<close>. \<open>$config\<close> is \<open>None\<close> while
  it is \<open>undefined\<close>, as after \<open>new BezierTo(...)\<close>, which calls \<open>super(duration, null)\<close>;
  \<open>BezierTo.startWithTarget\<close> assigns it.
\<close>

record 'e BezierBy = "'e ActionInterval" +
  config :: "Vector3 list option"
  start_b :: Vector3
  prev_b :: Vector3

record 'e BezierTo = "'e BezierBy" +
  toConfig :: "Vector3 list option"

definition BezierBy_new :: "rat \<Rightarrow> Vector3 list option \<Rightarrow> 'e BezierBy" where
  "BezierBy_new d points =
     ActionInterval.extend (ActionInterval_new d)
       (BezierBy.fields (map_option (map (\<lambda>p. vec3 (vx p) (vy p) (vz p))) points)
          (vec3 0 0 0) (vec3 0 0 0))"

definition BezierTo_new :: "rat \<Rightarrow> Vector3 list option \<Rightarrow> 'e BezierTo" where
  "BezierTo_new d points =
     BezierBy.extend (BezierBy_new d None)
       (BezierTo.fields (map_option (map (\<lambda>p. vec3 (vx p) (vy p) (vz p))) points))"

definition BezierBy_startWithTarget :: "Node \<Rightarrow> ('e, 'z) BezierBy_scheme \<Rightarrow> ('e, 'z) BezierBy_scheme" where
  "BezierBy_startWithTarget n a =
     (ActionInterval_startWithTarget (Some (node_id n)) a)
       \<lparr>prev_b := vec3 (vx (position n)) (vy (position n)) (vz (position n)),
        start_b := vec3 (vx (position n)) (vy (position n)) (vz (position n))\<rparr>"

text \<open>\<open>BezierTo.startWithTarget\<close> reads \<open>$toConfig[0..2]\<close>; a missing one throws.\<close>

definition BezierTo_startWithTarget :: "Node \<Rightarrow> ('e, 'z) BezierTo_scheme \<Rightarrow> error + ('e, 'z) BezierTo_scheme" where
  "BezierTo_startWithTarget n a =
     (let a1 = BezierBy_startWithTarget n a
      in case toConfig a1 of
           None \<Rightarrow> Inl TypeError
         | Some loc \<Rightarrow>
             if length loc < 3 then Inl TypeError
             else Inr (a1\<lparr>config := Some
                    (map (\<lambda>p. vec3 (vx p - vx (start_b a1)) (vy p - vy (start_b a1)) (vz p - vz (start_b a1)))
                       (take 3 loc))\<rparr>))"

text \<open>
  \<open>BezierBy.reverse()\<close>, which \<open>BezierTo\<close> inherits: it reads \<open>$config[0..2]\<close> and throws
  when \<open>$config\<close> or one of the three points is \<open>undefined\<close>.
\<close>

definition BezierBy_reverse :: "'e Easing \<Rightarrow> ('e, 'z) BezierBy_scheme \<Rightarrow> error + 'e BezierBy" where
  "BezierBy_reverse E this =
     (case config this of
        None \<Rightarrow> Inl TypeError
      | Some loc \<Rightarrow>
          if length loc < 3 then Inl TypeError
          else (let r = [vec3 (vx (loc ! 1) - vx (loc ! 2)) (vy (loc ! 1) - vy (loc ! 2)) (vz (loc ! 1) - vz (loc ! 2)),
                         vec3 (vx (loc ! 0) - vx (loc ! 2)) (vy (loc ! 0) - vy (loc ! 2)) (vz (loc ! 0) - vz (loc ! 2)),
                         vec3 (- vx (loc ! 2)) (- vy (loc ! 2)) (- vz (loc ! 2))];
                    action = BezierBy_new (duration_of this) (Some r)
                in Inr (reverseEaseList E this (cloneDecoration this action))))"

text \<open>
  The leaf actions as one type, and \<open>reverse()\<close> as the method call resolves for each
  class: \<open>MoveTo\<close> and \<open>BezierTo\<close> find the \<open>reverse\<close> of the class they extend,
  \<open>RotateTo\<close> and \<open>ScaleTo\<close> that of \<open>ActionInterval\<close>.
\<close>

datatype 'e leaf =
    MoveByA "'e MoveBy"
  | MoveToA "'e MoveTo"
  | RotateByA "'e RotateBy"
  | RotateToA "'e RotateTo"
  | ScaleToA "'e ScaleTo"
  | BezierByA "'e BezierBy"
  | BezierToA "'e BezierTo"

fun reverse :: "'e Easing \<Rightarrow> 'e leaf \<Rightarrow> (error + 'e leaf option) \<times> string list" where
  "reverse E (MoveByA a) = (Inr (Some (MoveByA (MoveBy_reverse E a))), [])"
| "reverse E (MoveToA a) = (Inr (Some (MoveByA (MoveBy_reverse E a))), [])"
| "reverse E (RotateByA a) = (Inr (Some (RotateByA (RotateBy_reverse E a))), [])"
| "reverse E (RotateToA a) = ActionInterval_reverse a"
| "reverse E (ScaleToA a) = ActionInterval_reverse a"
| "reverse E (BezierByA a) =
     (case BezierBy_reverse E a of Inl e \<Rightarrow> (Inl e, []) | Inr r \<Rightarrow> (Inr (Some (BezierByA r)), []))"
| "reverse E (BezierToA a) =
     (case BezierBy_reverse E a of Inl e \<Rightarrow> (Inl e, []) | Inr r \<Rightarrow> (Inr (Some (BezierByA r)), []))"

section \<open>Action.ts: Sequence\<close>











section \<open>Action.ts: ActionManager\<close>

text \<open>
  The manager sees an action through the virtual methods \<open>step\<close>, \<open>isDone\<close>, \<open>stop\<close> and
  the getter \<open>speed\<close>. In the model an action object has the fields of \<open>class Action\<close>
  and a description of what those methods do: \<open>speed_o\<close> is the value of \<open>speed\<close>;
  \<open>steps\<close> counts the calls of \<open>step\<close>, and \<open>isDone()\<close> answers \<open>isDone_after\<close> of that
  count; \<open>script\<close> is what the host callback run by \<open>step\<close> (as that of a \<open>CallFunc\<close>)
  asks of the manager. Action objects and target nodes are named by numbers (their
  references); \<open>===\<close> is equality of these numbers.
\<close>

datatype cmd =
    CbRemoveAction nat
  | CbRemoveActionByTag int nat
  | CbRemoveAllActionsFromTarget nat
  | CbPauseTarget nat
  | CbResumeTarget nat

record ActionObj = Action +
  speed_o :: rat
  steps :: nat
  isDone_after :: "nat \<Rightarrow> bool"
  script :: "cmd list"

text \<open>\<open>class HashElement\<close>; \<open>target\<close> is \<open>target_h\<close>.\<close>

record HashElement =
  actions :: "nat list"
  target_h :: "nat option"
  actionIndex :: int
  currentAction :: "nat option"
  paused :: bool
  lock :: bool

definition HashElement_new :: HashElement where
  "HashElement_new =
     \<lparr>actions = [], target_h = None, actionIndex = 0, currentAction = None,
      paused = False, lock = False\<rparr>"

text \<open>
  \<open>class ActionManager\<close>. \<open>$pool\<close>, \<open>$elementsMap\<close>, \<open>$elementsArr\<close> and \<open>$current\<close>
  hold references to \<open>HashElement\<close> objects; \<open>elements\<close> is the store of these objects
  and \<open>allocated\<close> the number created so far. \<open>objects\<close> is the store of the action
  objects. \<open>stepped\<close> lists the calls of \<open>step\<close> made so far, each with the action and
  the argument, oldest first.
\<close>

record ActionManager =
  pool :: "nat list"
  elementsMap :: "nat \<Rightarrow> nat option"
  elementsArr :: "nat list"
  current :: "nat option"
  elements :: "nat \<Rightarrow> HashElement"
  allocated :: nat
  objects :: "nat \<Rightarrow> ActionObj"
  stepped :: "(nat \<times> rat) list"

definition ActionManager_new :: "(nat \<Rightarrow> ActionObj) \<Rightarrow> ActionManager" where
  "ActionManager_new objs =
     \<lparr>pool = [], elementsMap = (\<lambda>_. None), elementsArr = [], current = None,
      elements = (\<lambda>_. HashElement_new), allocated = 0, objects = objs, stepped = []\<rparr>"

definition getElement :: "nat \<Rightarrow> bool \<Rightarrow> ActionManager \<Rightarrow> nat \<times> ActionManager" where
  "getElement t p m =
     (let (e, m1) =
            (if pool m = [] then
               (allocated m, m\<lparr>elements := (elements m)(allocated m := HashElement_new),
                                allocated := allocated m + 1\<rparr>)
             else (last (pool m), m\<lparr>pool := butlast (pool m)\<rparr>))
      in (e, m1\<lparr>elements := (elements m1)(e := (elements m1 e)\<lparr>target_h := Some t, paused := p\<rparr>)\<rparr>))"

definition putElement :: "nat \<Rightarrow> ActionManager \<Rightarrow> ActionManager" where
  "putElement e m =
     m\<lparr>elements := (elements m)(e := (elements m e)
          \<lparr>actions := [], actionIndex := 0, currentAction := None, paused := False,
           target_h := None, lock := False\<rparr>),
       pool := pool m @ [e]\<rparr>"

text \<open>
  \<open>addAction(action, target, paused)\<close>; \<open>None\<close> is a \<open>null\<close> argument. The call of
  \<open>action.startWithTarget(target)\<close> is that of \<open>class Action\<close>.
\<close>

definition addAction :: "nat option \<Rightarrow> nat option \<Rightarrow> bool \<Rightarrow> ActionManager \<Rightarrow> error + ActionManager" where
  "addAction action tgt p m =
     (case action of
        None \<Rightarrow> Inl ArgumentError
      | Some a \<Rightarrow>
          (case tgt of
             None \<Rightarrow> Inl ArgumentError
           | Some t \<Rightarrow>
               (let (e, m1) =
                      (case elementsMap m t of
                         None \<Rightarrow>
                           (let (e, m') = getElement t p m
                            in (e, m'\<lparr>elementsMap := (elementsMap m')(t \<mapsto> e),
                                      elementsArr := elementsArr m' @ [e]\<rparr>))
                       | Some e \<Rightarrow> (e, m));
                    m2 = m1\<lparr>elements := (elements m1)(e := (elements m1 e)
                                \<lparr>actions := actions (elements m1 e) @ [a]\<rparr>)\<rparr>
                in Inr (m2\<lparr>objects := (objects m2)(a := Action_startWithTarget (Some t) (objects m2 a))\<rparr>))))"

text \<open>
  \<open>$deleteHashElement(element)\<close>, for an element that is not \<open>null\<close>; reading
  \<open>element.target.id\<close> of an element whose target is \<open>null\<close> throws.
\<close>

definition deleteHashElement :: "nat \<Rightarrow> ActionManager \<Rightarrow> error + (bool \<times> ActionManager)" where
  "deleteHashElement e m =
     (if \<not> lock (elements m e) then
        (case target_h (elements m e) of
           None \<Rightarrow> Inl TypeError
         | Some t \<Rightarrow>
             if elementsMap m t \<noteq> None then
               Inr (True, putElement e
                      (m\<lparr>elementsMap := (elementsMap m)(t := None),
                         elementsArr := remove1 e (elementsArr m)\<rparr>))
             else Inr (False, m))
      else Inr (False, m))"

definition removeAllActionsFromTarget :: "nat option \<Rightarrow> ActionManager \<Rightarrow> error + ActionManager" where
  "removeAllActionsFromTarget tgt m =
     (case tgt of
        None \<Rightarrow> Inr m
      | Some t \<Rightarrow>
          (case elementsMap m t of
             None \<Rightarrow> Inr m
           | Some e \<Rightarrow>
               (case deleteHashElement e
                       (m\<lparr>elements := (elements m)(e := (elements m e)\<lparr>actions := []\<rparr>)\<rparr>) of
                  Inl err \<Rightarrow> Inl err
                | Inr (_, m') \<Rightarrow> Inr m')))"

text \<open>The index of the first element of a list that satisfies \<open>P\<close>, as the \<open>for\<close> loops find it.\<close>

fun first_index :: "('a \<Rightarrow> bool) \<Rightarrow> 'a list \<Rightarrow> nat option" where
  "first_index P [] = None"
| "first_index P (x # xs) = (if P x then Some 0 else map_option Suc (first_index P xs))"

text \<open>\<open>actions.splice(i, 1)\<close> and the adjustment of \<open>actionIndex\<close> that follows it.\<close>

definition splice_action :: "nat \<Rightarrow> HashElement \<Rightarrow> HashElement" where
  "splice_action i el =
     (let el1 = el\<lparr>actions := take i (actions el) @ drop (Suc i) (actions el)\<rparr>
      in if actionIndex el1 \<ge> int i then el1\<lparr>actionIndex := actionIndex el1 - 1\<rparr> else el1)"

text \<open>
  \<open>removeAction(action)\<close>; reading \<open>target.id\<close> of an action that was never started
  throws.
\<close>

definition removeAction :: "nat option \<Rightarrow> ActionManager \<Rightarrow> error + ActionManager" where
  "removeAction action m =
     (case action of
        None \<Rightarrow> Inr m
      | Some a \<Rightarrow>
          (case originalTarget (objects m a) of
             None \<Rightarrow> Inl TypeError
           | Some t \<Rightarrow>
               (case elementsMap m t of
                  None \<Rightarrow> Inr m
                | Some e \<Rightarrow>
                    (case first_index (\<lambda>x. x = a) (actions (elements m e)) of
                       None \<Rightarrow> Inr m
                     | Some i \<Rightarrow>
                         Inr (m\<lparr>elements := (elements m)(e := splice_action i (elements m e))\<rparr>)))))"

definition removeActionAtIndex :: "nat \<Rightarrow> nat \<Rightarrow> ActionManager \<Rightarrow> error + ActionManager" where
  "removeActionAtIndex i e m =
     (let m1 = m\<lparr>elements := (elements m)(e := splice_action i (elements m e))\<rparr>
      in if length (actions (elements m1 e)) = 0 then
           (case deleteHashElement e m1 of Inl err \<Rightarrow> Inl err | Inr (_, m') \<Rightarrow> Inr m')
         else Inr m1)"

definition removeActionByTag :: "int \<Rightarrow> nat \<Rightarrow> ActionManager \<Rightarrow> error + ActionManager" where
  "removeActionByTag tg t m =
     (case elementsMap m t of
        None \<Rightarrow> Inr m
      | Some e \<Rightarrow>
          (case first_index (\<lambda>a. tag (objects m a) = tg \<and> originalTarget (objects m a) = Some t)
                  (actions (elements m e)) of
             None \<Rightarrow> Inr m
           | Some i \<Rightarrow> removeActionAtIndex i e m))"

definition pauseTarget :: "nat \<Rightarrow> ActionManager \<Rightarrow> ActionManager" where
  "pauseTarget t m =
     (case elementsMap m t of
        None \<Rightarrow> m
      | Some e \<Rightarrow> m\<lparr>elements := (elements m)(e := (elements m e)\<lparr>paused := True\<rparr>)\<rparr>)"

definition resumeTarget :: "nat \<Rightarrow> ActionManager \<Rightarrow> ActionManager" where
  "resumeTarget t m =
     (case elementsMap m t of
        None \<Rightarrow> m
      | Some e \<Rightarrow> m\<lparr>elements := (elements m)(e := (elements m e)\<lparr>paused := False\<rparr>)\<rparr>)"

definition numberOfRunningActionsInTarget :: "nat \<Rightarrow> ActionManager \<Rightarrow> nat" where
  "numberOfRunningActionsInTarget t m =
     (case elementsMap m t of None \<Rightarrow> 0 | Some e \<Rightarrow> length (actions (elements m e)))"

text \<open>What a host callback asks of the manager, one request after the other.\<close>

fun run_cmd :: "cmd \<Rightarrow> ActionManager \<Rightarrow> error + ActionManager" where
  "run_cmd (CbRemoveAction a) m = removeAction (Some a) m"
| "run_cmd (CbRemoveActionByTag tg t) m = removeActionByTag tg t m"
| "run_cmd (CbRemoveAllActionsFromTarget t) m = removeAllActionsFromTarget (Some t) m"
| "run_cmd (CbPauseTarget t) m = Inr (pauseTarget t m)"
| "run_cmd (CbResumeTarget t) m = Inr (resumeTarget t m)"

fun run_script :: "cmd list \<Rightarrow> ActionManager \<Rightarrow> error + ActionManager" where
  "run_script [] m = Inr m"
| "run_script (c # cs) m = (case run_cmd c m of Inl err \<Rightarrow> Inl err | Inr m' \<Rightarrow> run_script cs m')"

text \<open>
  \<open>action.step(dt)\<close> as the manager sees it: the call is recorded and counted, and the
  host callback runs. \<open>action.isDone()\<close> and \<open>action.stop()\<close>.
\<close>

definition step_action :: "rat \<Rightarrow> nat \<Rightarrow> ActionManager \<Rightarrow> error + ActionManager" where
  "step_action dt a m =
     run_script (script (objects m a))
       (m\<lparr>stepped := stepped m @ [(a, dt)],
          objects := (objects m)(a := (objects m a)\<lparr>steps := steps (objects m a) + 1\<rparr>)\<rparr>)"

definition isDone_action :: "nat \<Rightarrow> ActionManager \<Rightarrow> bool" where
  "isDone_action a m = isDone_after (objects m a) (steps (objects m a))"

definition stop_action :: "nat \<Rightarrow> ActionManager \<Rightarrow> ActionManager" where
  "stop_action a m = m\<lparr>objects := (objects m)(a := Action_stop (objects m a))\<rparr>"

text \<open>
  The inner loop of \<open>update(dt)\<close> over the actions of the element \<open>e\<close>, from the test
  \<open>element.actionIndex < element.actions.length\<close> on. \<open>None\<close> is a loop that does not end.
\<close>

partial_function (option) update_actions :: "rat \<Rightarrow> nat \<Rightarrow> ActionManager \<Rightarrow> (error + ActionManager) option" where
  "update_actions dt e m =
     (if actionIndex (elements m e) < int (length (actions (elements m e))) then
        (let idx = actionIndex (elements m e);
             cur = (if 0 \<le> idx then Some (actions (elements m e) ! nat idx) else None);
             m1 = m\<lparr>elements := (elements m)(e := (elements m e)\<lparr>currentAction := cur\<rparr>)\<rparr>
         in case cur of
              None \<Rightarrow>
                update_actions dt e
                  (m1\<lparr>elements := (elements m1)(e := (elements m1 e)
                         \<lparr>actionIndex := actionIndex (elements m1 e) + 1\<rparr>)\<rparr>)
            | Some a \<Rightarrow>
                (case step_action (dt * speed_o (objects m1 a)) a m1 of
                   Inl err \<Rightarrow> Some (Inl err)
                 | Inr m2 \<Rightarrow>
                     (case (case currentAction (elements m2 e) of
                              None \<Rightarrow> Inr m2
                            | Some c \<Rightarrow>
                                if isDone_action c m2 then
                                  (let m3 = stop_action c m2;
                                       m4 = m3\<lparr>elements := (elements m3)(e := (elements m3 e)
                                               \<lparr>currentAction := None\<rparr>)\<rparr>
                                   in removeAction (Some c) m4)
                                else Inr m2) of
                        Inl err \<Rightarrow> Some (Inl err)
                      | Inr m5 \<Rightarrow>
                          update_actions dt e
                            (m5\<lparr>elements := (elements m5)(e := (elements m5 e)
                                   \<lparr>currentAction := None,
                                    actionIndex := actionIndex (elements m5 e) + 1\<rparr>)\<rparr>))))
      else Some (Inr m))"

declare update_actions.simps [code]

text \<open>
  The outer loop of \<open>update(dt)\<close> from the test \<open>i < elements.length\<close> on, and
  \<open>update(dt)\<close> itself. Reading \<open>elements[i]\<close> at a negative \<open>i\<close> gives \<open>undefined\<close>, whose
  \<open>paused\<close> cannot be read.
\<close>

partial_function (option) update_elements :: "rat \<Rightarrow> int \<Rightarrow> ActionManager \<Rightarrow> (error + ActionManager) option" where
  "update_elements dt i m =
     (if i < int (length (elementsArr m)) then
        (if i < 0 then Some (Inl TypeError)
         else (let e = elementsArr m ! nat i;
                   m1 = m\<lparr>current := Some e\<rparr>
               in case (if \<not> paused (elements m1 e) then
                          (case update_actions dt e
                                  (m1\<lparr>elements := (elements m1)(e := (elements m1 e)
                                         \<lparr>lock := True, actionIndex := 0\<rparr>)\<rparr>) of
                             None \<Rightarrow> None
                           | Some (Inl err) \<Rightarrow> Some (Inl err)
                           | Some (Inr m2) \<Rightarrow>
                               Some (Inr (m2\<lparr>elements := (elements m2)(e := (elements m2 e)
                                               \<lparr>lock := False\<rparr>)\<rparr>)))
                        else Some (Inr m1)) of
                    None \<Rightarrow> None
                  | Some (Inl err) \<Rightarrow> Some (Inl err)
                  | Some (Inr m3) \<Rightarrow>
                      if length (actions (elements m3 e)) = 0 then
                        (case deleteHashElement e m3 of
                           Inl err \<Rightarrow> Some (Inl err)
                         | Inr (_, m4) \<Rightarrow> update_elements dt (i - 1 + 1) m4)
                      else update_elements dt (i + 1) m3))
      else Some (Inr m))"

declare update_elements.simps [code]

definition update :: "rat \<Rightarrow> ActionManager \<Rightarrow> (error + ActionManager) option" where
  "update dt m = update_elements dt 0 m"

section \<open>Observations and example values\<close>



text \<open>
  Elements with a data property \<open>id\<close> and a key, ordered by the key, for a heap made by
  \<open>heap.map\<close>.
\<close>

record keyed = identifiable +
  key :: int

definition keyed_less :: "keyed option \<Rightarrow> keyed option \<Rightarrow> error + bool" where
  "keyed_less a b =
     (case a of
        None \<Rightarrow> Inl TypeError
      | Some x \<Rightarrow> (case b of None \<Rightarrow> Inl TypeError | Some y \<Rightarrow> Inr (key x < key y)))"

text \<open>
  Easing objects that are their own \<open>easing\<close> function, and an interval action of
  duration 1, started, whose only easing squares the time (as \<open>easeIn(2)\<close> does).
\<close>

definition function_easing :: "(rat \<Rightarrow> rat) Easing" where
  "function_easing = \<lparr>easing = (\<lambda>f. f), reverse_e = (\<lambda>f. f)\<rparr>"

definition squared_interval :: "(rat \<Rightarrow> rat) ActionInterval" where
  "squared_interval =
     ActionInterval_startWithTarget (Some 0) (set_easing [\<lambda>t. t * t] (ActionInterval_new 1))"



text \<open>
  A record of the manager is in order when the map leads from its target back to it, it
  is not locked, it lists no action twice, and each of its actions was started with its
  target. The manager is in order when \<open>$elementsArr\<close> lists no record twice and every
  listed record is in order.
\<close>

definition record_ok :: "ActionManager \<Rightarrow> nat \<Rightarrow> bool" where
  "record_ok m e =
     ((case target_h (elements m e) of None \<Rightarrow> False | Some t \<Rightarrow> elementsMap m t = Some e)
      \<and> \<not> lock (elements m e)
      \<and> distinct (actions (elements m e))
      \<and> list_all (\<lambda>a. originalTarget (objects m a) = target_h (elements m e))
           (actions (elements m e)))"

definition manager_ok :: "ActionManager \<Rightarrow> bool" where
  "manager_ok m = (distinct (elementsArr m) \<and> list_all (record_ok m) (elementsArr m))"

text \<open>
  The host callbacks in a record ask for nothing but the removal of the action whose
  \<open>step\<close> runs them, that is, of the action the loop is at.
\<close>

definition removes_only_itself :: "ActionManager \<Rightarrow> nat \<Rightarrow> bool" where
  "removes_only_itself m e =
     list_all (\<lambda>a. script (objects m a) = [] \<or> script (objects m a) = [CbRemoveAction a])
       (actions (elements m e))"

definition callbacks_remove_current :: "ActionManager \<Rightarrow> bool" where
  "callbacks_remove_current m = list_all (removes_only_itself m) (elementsArr m)"

text \<open>
  The calls of \<open>step\<close> an update owes: every action of every record that is not paused,
  once, in the order of the records and of their lists, with \<open>dt * action.speed\<close>.
\<close>

definition steps_of_record :: "rat \<Rightarrow> ActionManager \<Rightarrow> nat \<Rightarrow> (nat \<times> rat) list" where
  "steps_of_record dt m e = map (\<lambda>a. (a, dt * speed_o (objects m a))) (actions (elements m e))"

definition steps_due :: "rat \<Rightarrow> ActionManager \<Rightarrow> (nat \<times> rat) list" where
  "steps_due dt m =
     concat (map (steps_of_record dt m) (filter (\<lambda>e. \<not> paused (elements m e)) (elementsArr m)))"

text \<open>
  Action objects for an example: object 11 behaves as a \<open>CallFunc\<close> whose function calls
  \<open>removeAction\<close> on it (done after its first step); every other object is an action
  that is never done and calls nothing. The example manager runs the actions 10, 11, 12
  on target 1 and the action 20 on target 2.
\<close>

definition example_objects :: "nat \<Rightarrow> ActionObj" where
  "example_objects a =
     \<lparr>originalTarget = None, target = None, tag = ACTION_TAG_INVALID,
      speed_o = 1, steps = 0, isDone_after = (\<lambda>n. a = 11),
      script = (if a = 11 then [CbRemoveAction 11] else [])\<rparr>"

fun addActions :: "(nat \<times> nat) list \<Rightarrow> ActionManager \<Rightarrow> ActionManager" where
  "addActions [] m = m"
| "addActions ((a, t) # xs) m =
     (case addAction (Some a) (Some t) False m of Inl _ \<Rightarrow> m | Inr m' \<Rightarrow> addActions xs m')"

definition example_manager :: ActionManager where
  "example_manager =
     addActions [(10, 1), (11, 1), (12, 1), (20, 2)] (ActionManager_new example_objects)"

section \<open>Properties of the heap and the timer scheduler\<close>

lemmas js_array_defs =
  js_get_def js_set_def js_push_def js_pop_def js_length_def js_empty_def

lemmas Array_defs =
  Array_ops_def Array_new_def Array_size_def Array_get_def Array_less_def Array_swap_def
  Array_pushBack_def Array_popBack_def

lemmas Map_defs =
  Map_ops_def Map_new_def Map_swap_def Map_pushBack_def Map_popBack_def Map_indexof_def
  set_id_def data_id_assign_def Array_size_def Array_get_def Array_less_def

lemmas Heap_defs =
  Heap_pop_def Heap_push_def Heap_down_def Heap_size_def Heap_remove_def

lemmas Director_defs =
  Director_init_def Director_setInterval_def Director_setTimeout_def
  Director_clearInterval_def Timer_new_def Timer_call_def timer_less_def
  Timer_ops_def Timer_id_assign_def

text \<open>
  C10. \<open>pop()\<close> on an empty array-backed heap does not throw, whatever the comparison
  function is: it returns \<open>undefined\<close> and the heap has size 0 afterwards. An empty heap
  is an array with no element and with nothing stored under the key \<open>-1\<close> (the slot
  \<open>swap(0, -1)\<close> reads); the heap after the call is empty in the same sense. Inside the
  call the array has length 1 for a moment: \<open>elems[0] = elems[-1]\<close> creates slot 0, and
  \<open>popBack\<close> removes it again.
\<close>

theorem Heap_pop_empty:
  assumes "Heap_size Array_ops c = 0" and "js_get (elems c) (- 1) = None"
  shows "\<exists>c'. Heap_pop Array_ops c = Inr (None, c') \<and> Heap_size Array_ops c' = 0
           \<and> js_get (elems c') (- 1) = None"
  using assms by (simp add: Heap_defs Array_defs js_array_defs Let_def)

theorem Heap_pop_empty_witness:
  "Heap_size Array_ops (Array_new ([] :: nat list) (\<lambda>a b. Inl TypeError)) = 0
   \<and> js_get (elems (Array_new ([] :: nat list) (\<lambda>a b. Inl TypeError))) (- 1) = None
   \<and> (\<exists>c'. Heap_pop Array_ops (Array_new ([] :: nat list) (\<lambda>a b. Inl TypeError)) = Inr (None, c')
          \<and> Heap_size Array_ops c' = 0 \<and> js_get (elems c') (- 1) = None)"
proof -
  have h1: "Heap_size Array_ops (Array_new ([] :: nat list) (\<lambda>a b. Inl TypeError)) = 0"
    by (simp add: Heap_defs Array_defs js_array_defs)
  have h2: "js_get (elems (Array_new ([] :: nat list) (\<lambda>a b. Inl TypeError))) (- 1) = None"
    by (simp add: Array_defs js_array_defs)
  show ?thesis using h1 h2 Heap_pop_empty [OF h1 h2] by simp
qed


text \<open>
  C1 (the code departs from the claim). \<open>Map.swap\<close> assigns to the \<open>id\<close> of the two
  elements and never writes \<open>indices\<close>.

  With elements whose \<open>id\<close> is a data property: an element with id 1 and key 5 and then
  one with id 2 and key 3 are pushed on an empty heap. The second push swaps the two
  slots. Afterwards \<open>indexof(2)\<close> is 1, but slot 1 holds the first element, and the element
  pushed with id 2 is in slot 0 with its id overwritten by 0.

  With the timers of the scheduler: a timer due at 5 (id 1) and then one due at 3 (id 2)
  are created. In strict code the second \<open>setInterval\<close> throws, from the assignment in
  \<open>Map.swap\<close>. In code that is not strict it returns, and \<open>indexof(2)\<close> is 1 while the
  timer with id 2 is in slot 0 and slot 1 holds the timer with id 1; \<open>clearInterval(2)\<close>
  then removes the timer with id 1.
\<close>

theorem Map_swap_loses_index:
  "(\<exists>c1 c2.
      Heap_push (Map_ops data_id_assign) \<lparr>id_num = 1, key = 5\<rparr> (Map_new [] keyed_less) = Inr c1
    \<and> Heap_push (Map_ops data_id_assign) \<lparr>id_num = 2, key = 3\<rparr> c1 = Inr c2
    \<and> Map_indexof c2 2 = 1
    \<and> get_c (Map_ops data_id_assign) c2 1 = Some \<lparr>id_num = 1, key = 5\<rparr>
    \<and> get_c (Map_ops data_id_assign) c2 0 = Some \<lparr>id_num = 0, key = 3\<rparr>)
   \<and> (\<exists>d1 d2 d3 t0 t1.
        Director_setInterval strict h1 5 0 Director_init = Inr (1, d1)
      \<and> Director_setInterval True h2 3 0 d1 = Inl TypeError
      \<and> Director_setInterval False h2 3 0 d1 = Inr (2, d2)
      \<and> Map_indexof (timers d2) 2 = 1
      \<and> get_c (Timer_ops False) (timers d2) 1 = Some t1 \<and> handler t1 = h1 \<and> id_num t1 = 1
      \<and> get_c (Timer_ops False) (timers d2) 0 = Some t0 \<and> handler t0 = h2 \<and> id_num t0 = 2
      \<and> Director_clearInterval False 2 d2 = Inr d3
      \<and> items (elems (timers d3)) = [Some t0])"
  by (simp add: Director_defs Heap_defs Map_defs js_array_defs keyed_less_def Let_def)

text \<open>
  C5 (the code departs from the claim). A repeating timer is created by \<open>setInterval\<close>
  at time 0 with interval 1 in a fresh scheduler. In strict code the pass
  \<open>scheduleTimers(3.5)\<close> ends with a \<open>TypeError\<close>: the timer is due, \<open>pop()\<close> calls
  \<open>Map.swap(0, 0)\<close>, and the assignment to the timer's \<open>id\<close> throws before the handler
  is called. In code that is not strict the pass returns after three calls of the
  handler, with \<open>$times = 3\<close> and \<open>$next = 4\<close>.
\<close>

theorem scheduleTimers_interval_one:
  "\<exists>d1 d2 t.
     Director_setInterval strict h 1 0 Director_init = Inr (1, d1)
     \<and> scheduleTimers True (7 / 2) d1 = Some (Inl TypeError)
     \<and> scheduleTimers False (7 / 2) d1 = Some (Inr d2)
     \<and> fired d2 = [h, h, h]
     \<and> items (elems (timers d2)) = [Some t]
     \<and> handler t = h \<and> once t = False \<and> times_t t = 3 \<and> next_t t = 4"
  by (simp add: scheduleTimers.simps Director_defs Heap_defs Map_defs js_array_defs Let_def)


section \<open>Properties of the actions\<close>

lemmas Action_defs =
  ActionInterval_new_def ACTION_TAG_INVALID_def times_of_def duration_of_def initWithDuration_def
  ActionInterval_isDone_def cloneDecoration_def reverseEaseList_def set_easing_def
  computeEaseTime_def Action_startWithTarget_def Action_stop_def
  ActionInterval_startWithTarget_def ActionInterval_repeatForever_def Action_update_def
  ActionInterval_reverse_def

lemmas leaf_defs =
  MoveBy_new_def MoveTo_new_def MoveBy_startWithTarget_def MoveTo_startWithTarget_def
  MoveBy_update_def MoveBy_reverse_def RotateBy_new_def RotateBy_startWithTarget_def
  RotateBy_update_def RotateBy_reverse_def RotateTo_new_def ScaleTo_new_def BezierBy_new_def
  BezierTo_new_def BezierBy_startWithTarget_def BezierTo_startWithTarget_def
  BezierBy_reverse_def vec3_def ActionInterval.extend_def MoveBy.extend_def MoveBy.fields_def
  MoveTo.fields_def RotateBy.fields_def RotateTo.fields_def ScaleTo.fields_def
  BezierBy.extend_def BezierBy.fields_def BezierTo.fields_def

text \<open>
  C8 (the code departs from the claim). \<open>reverse()\<close> of a \<open>RotateTo\<close> and of a
  \<open>ScaleTo\<close> logs an error and returns \<open>null\<close>. \<open>MoveTo\<close> and \<open>BezierTo\<close> extend
  \<open>MoveBy\<close> and \<open>BezierBy\<close> and do not override \<open>reverse\<close>: \<open>reverse()\<close> of a new
  \<open>MoveTo\<close> returns a \<open>MoveBy\<close> of delta zero, and of a started one a \<open>MoveBy\<close> of the
  negated distance, with nothing logged; \<open>reverse()\<close> of a new \<open>BezierTo\<close> throws, since
  its \<open>$config\<close> is still \<open>undefined\<close>.
\<close>

theorem reverse_of_to_actions:
  "reverse E (RotateToA (RotateTo_new 1 (vec3 0 0 90)))
     = (Inr None, [''cc.IntervalAction: reverse not implemented.''])
   \<and> reverse E (ScaleToA (ScaleTo_new 1 2 None))
     = (Inr None, [''cc.IntervalAction: reverse not implemented.''])
   \<and> reverse E (MoveToA (MoveTo_new 1 (vec3 1 2 3)))
     = (Inr (Some (MoveByA (MoveBy_new 1 (vec3 0 0 0)))), [])
   \<and> reverse E (MoveToA (MoveTo_startWithTarget
         \<lparr>node_id = 0, position = vec3 0 0 0, rotation = vec3 0 0 0, scale = vec3 1 1 1\<rparr>
         (MoveTo_new 1 (vec3 1 2 3))))
     = (Inr (Some (MoveByA (MoveBy_new 1 (vec3 (- 1) (- 2) (- 3))))), [])
   \<and> reverse E (BezierToA (BezierTo_new 1 (Some [vec3 1 0 0, vec3 1 1 0, vec3 0 1 0])))
     = (Inl TypeError, [])"
  by (simp add: Action_defs leaf_defs Let_def)

text \<open>
  C9 (the code departs from the claim). \<open>reverse()\<close> passes the getter \<open>this.duration\<close>,
  which is \<open>$duration\<close> times the repeat count, to the constructor and then copies the
  repeat count again. For a \<open>MoveBy\<close> or \<open>RotateBy\<close> of duration 1 made to repeat by
  \<open>repeatForever()\<close> (repeat count 2, \<open>duration\<close> 2), reversing twice gives an action
  whose \<open>$duration\<close> is 4 and whose \<open>duration\<close> is 8; the delta is the original one.
\<close>

theorem reverse_twice_repeating:
  "duration_of (ActionInterval_repeatForever (MoveBy_new 1 dl :: 'e MoveBy)) = 2
   \<and> duration_a (MoveBy_reverse E (MoveBy_reverse E (ActionInterval_repeatForever (MoveBy_new 1 dl)))) = 4
   \<and> duration_of (MoveBy_reverse E (MoveBy_reverse E (ActionInterval_repeatForever (MoveBy_new 1 dl)))) = 8
   \<and> delta (MoveBy_reverse E (MoveBy_reverse E (ActionInterval_repeatForever (MoveBy_new 1 dl)))) = dl
   \<and> duration_of (ActionInterval_repeatForever (RotateBy_new 1 dl :: 'e RotateBy)) = 2
   \<and> duration_a (RotateBy_reverse E (RotateBy_reverse E (ActionInterval_repeatForever (RotateBy_new 1 dl)))) = 4
   \<and> duration_of (RotateBy_reverse E (RotateBy_reverse E (ActionInterval_repeatForever (RotateBy_new 1 dl)))) = 8
   \<and> angle (RotateBy_reverse E (RotateBy_reverse E (ActionInterval_repeatForever (RotateBy_new 1 dl)))) = dl"
  by (simp add: Action_defs leaf_defs Let_def)

text \<open>
  What does hold: for a \<open>MoveBy\<close> or \<open>RotateBy\<close> whose repeat count is unset (or 1) and
  whose \<open>$duration\<close> is not zero, reversing twice gives the duration, the delta, the
  speed and the repeat decoration of the original, and the easing list reversed twice.
\<close>

lemma MoveBy_reverse_twice:
  assumes "times_of a = 1" and "duration_a a \<noteq> 0"
  shows "duration_a (MoveBy_reverse E (MoveBy_reverse E a)) = duration_a a
    \<and> duration_of (MoveBy_reverse E (MoveBy_reverse E a)) = duration_of a
    \<and> delta (MoveBy_reverse E (MoveBy_reverse E a)) = delta a
    \<and> speed (MoveBy_reverse E (MoveBy_reverse E a)) = speed a
    \<and> forever (MoveBy_reverse E (MoveBy_reverse E a)) = forever a
    \<and> times_a (MoveBy_reverse E (MoveBy_reverse E a)) = times_a a
    \<and> easeList (MoveBy_reverse E (MoveBy_reverse E a))
        = map_option (map (reverse_e E \<circ> reverse_e E)) (easeList a)"
  using assms
  by (cases "easeList a") (auto simp: Action_defs leaf_defs Let_def split: option.splits if_splits)

lemma RotateBy_reverse_twice:
  assumes "times_of a = 1" and "duration_a a \<noteq> 0"
  shows "duration_a (RotateBy_reverse E (RotateBy_reverse E a)) = duration_a a
    \<and> duration_of (RotateBy_reverse E (RotateBy_reverse E a)) = duration_of a
    \<and> angle (RotateBy_reverse E (RotateBy_reverse E a)) = angle a
    \<and> speed (RotateBy_reverse E (RotateBy_reverse E a)) = speed a
    \<and> forever (RotateBy_reverse E (RotateBy_reverse E a)) = forever a
    \<and> times_a (RotateBy_reverse E (RotateBy_reverse E a)) = times_a a
    \<and> easeList (RotateBy_reverse E (RotateBy_reverse E a))
        = map_option (map (reverse_e E \<circ> reverse_e E)) (easeList a)"
  using assms
  by (cases "easeList a") (auto simp: Action_defs leaf_defs Let_def split: option.splits if_splits)

text \<open>
  C7, as stated, fails: \<open>step\<close> gives \<open>update\<close> the clamped time itself, not its image
  under the easings. An interval action of duration 1 whose easing squares the time is
  started and stepped twice, the second time with \<open>dt = 1/2\<close>: \<open>update\<close> receives 0 and
  then \<open>1/2\<close>, while the easing of \<open>1/2\<close> is \<open>1/4\<close>.
\<close>

theorem step_gives_uneased_time_counterexample:
  "map_option snd
     (Option.bind
        (ActionInterval_step Action_update (ActionInterval_startWithTarget (Some 0)) (1 / 60)
           (squared_interval, []))
        (ActionInterval_step Action_update (ActionInterval_startWithTarget (Some 0)) (1 / 2)))
     = Some [0, 1 / 2]
   \<and> computeEaseTime function_easing squared_interval (1 / 2) = 1 / 4"
  by (simp add: ActionInterval_step.simps squared_interval_def function_easing_def Action_defs
      Let_def FLT_EPSILON_def)


text \<open>\<open>MoveBy.update\<close> is one of the \<open>update\<close> methods that ease the time they are given.\<close>

lemma MoveBy_update_eases:
  assumes "target a \<noteq> None"
  shows "position (snd (MoveBy_update E t a n))
         = vec3 (vx (delta a) * computeEaseTime E a t + (vx (start a) + (vx (position n) - vx (prev a))))
                (vy (delta a) * computeEaseTime E a t + (vy (start a) + (vy (position n) - vy (prev a))))
                (vz (delta a) * computeEaseTime E a t + (vz (start a) + (vz (position n) - vz (prev a))))"
  using assms by (simp add: MoveBy_update_def Let_def vec3_def)

text \<open>
  C7, amended. For an interval action whose repeat count is unset or at most 1, with the
  \<open>update\<close> of the base class: \<open>step(dt)\<close> returns; on the first call after
  \<open>startWithTarget\<close> (which sets \<open>$firstTick\<close>) it sets \<open>$elapsed\<close> to 0, and on every
  later call it adds \<open>dt\<close>; it gives \<open>update\<close> one value, the clamped quotient
  \<open>max 0 (min 1 ($elapsed / max $duration FLT_EPSILON))\<close> itself, with no easing applied.
  The divisor is positive, and a duration 0 given to the constructor is stored as
  \<open>FLT_EPSILON\<close>. The easings are applied by \<open>$computeEaseTime\<close>, first to last, which
  the \<open>update\<close> methods of the subclasses call on the value they are given.
\<close>

theorem ActionInterval_step_base:
  assumes "\<not> (case times_a a of None \<Rightarrow> False | Some n \<Rightarrow> n > 1)"
  shows "(\<exists>a'. ActionInterval_step Action_update st dt (a, given)
            = Some (a', given @ [max 0 (min 1 (elapsed a' / max (duration_a a) FLT_EPSILON))])
          \<and> elapsed a' = (if firstTick a then 0 else elapsed a + dt)
          \<and> firstTick a' = False
          \<and> duration_a a' = duration_a a \<and> easeList a' = easeList a)
    \<and> 0 < max (duration_a a) FLT_EPSILON
    \<and> firstTick (ActionInterval_startWithTarget tg a) = True
    \<and> duration_a (ActionInterval_new 0 :: 'e ActionInterval) = FLT_EPSILON
    \<and> computeEaseTime E a t
        = foldl (\<lambda>t e. easing E e t) t (case easeList a of None \<Rightarrow> [] | Some l \<Rightarrow> l)"
  using assms
  by (subst ActionInterval_step.simps)
     (auto simp: Action_defs Let_def FLT_EPSILON_def max_def min_def split: option.splits)

theorem ActionInterval_step_base_witness:
  "\<not> (case times_a (squared_interval\<lparr>firstTick := False, elapsed := 1 / 4\<rparr>) of
         None \<Rightarrow> False | Some n \<Rightarrow> n > 1)
   \<and> (\<exists>a'. ActionInterval_step Action_update (ActionInterval_startWithTarget (Some 0)) (1 / 4)
             (squared_interval\<lparr>firstTick := False, elapsed := 1 / 4\<rparr>, [0])
            = Some (a', [0, 1 / 2])
          \<and> elapsed a' = 1 / 2)
   \<and> computeEaseTime function_easing (squared_interval\<lparr>firstTick := False, elapsed := 1 / 4\<rparr>) (1 / 2)
       = 1 / 4"
proof -
  let ?a = "squared_interval\<lparr>firstTick := False, elapsed := 1 / 4\<rparr>"
  have h: "\<not> (case times_a ?a of None \<Rightarrow> False | Some n \<Rightarrow> n > 1)"
    by (simp add: squared_interval_def Action_defs)
  have d: "duration_a ?a = 1" "elapsed ?a = 1 / 4" "firstTick ?a = False"
    "easeList ?a = Some [\<lambda>t. t * t]"
    by (simp_all add: squared_interval_def Action_defs)
  show ?thesis
    using h ActionInterval_step_base [OF h, of "ActionInterval_startWithTarget (Some 0)" "1 / 4" "[0]"
        "Some 0" function_easing "1 / 2"]
    by (auto simp: d FLT_EPSILON_def function_easing_def)
qed

section \<open>Properties of Sequence\<close>















section \<open>Properties of the action manager\<close>

lemmas Manager_defs =
  ActionManager_new_def HashElement_new_def getElement_def putElement_def addAction_def
  deleteHashElement_def removeAllActionsFromTarget_def splice_action_def removeAction_def
  removeActionAtIndex_def removeActionByTag_def pauseTarget_def resumeTarget_def
  numberOfRunningActionsInTarget_def step_action_def isDone_action_def stop_action_def
  Action_startWithTarget_def Action_stop_def

text \<open>
  C4 (the code departs from the claim). An action is added for a target of a fresh
  manager and removed again by \<open>removeAction\<close>: the target's record is still in
  \<open>$elementsArr\<close> and \<open>$elementsMap\<close>, unlocked, with an empty list, and is not in the
  pool; the next \<open>update\<close> deletes it. Removing the same action by
  \<open>removeActionByTag\<close> instead deletes the record at once.
\<close>

theorem removeAction_leaves_empty_record:
  "\<exists>m1 m2 m3 m4.
     addAction (Some a) (Some t) False (ActionManager_new objs) = Inr m1
   \<and> removeAction (Some a) m1 = Inr m2
   \<and> elementsArr m2 = [0] \<and> elementsMap m2 t = Some 0
   \<and> target_h (elements m2 0) = Some t \<and> actions (elements m2 0) = []
   \<and> lock (elements m2 0) = False \<and> pool m2 = []
   \<and> removeActionByTag (tag (objs a)) t m1 = Inr m3
   \<and> elementsArr m3 = [] \<and> elementsMap m3 t = None \<and> pool m3 = [0]
   \<and> update dt m2 = Some (Inr m4)
   \<and> elementsArr m4 = [] \<and> elementsMap m4 t = None \<and> pool m4 = [0]"
  by (simp add: Manager_defs Let_def update_def update_elements.simps update_actions.simps)

section \<open>The update loop of the action manager\<close>

lemma first_index_nth:
  "distinct xs \<Longrightarrow> k < length xs \<Longrightarrow> first_index (\<lambda>x. x = xs ! k) xs = Some k"
proof (induction xs arbitrary: k)
  case Nil
  then show ?case by simp
next
  case (Cons x xs)
  show ?case
  proof (cases k)
    case 0
    then show ?thesis by simp
  next
    case (Suc j)
    with Cons.prems have "xs ! j \<noteq> x" by auto
    with Cons Suc show ?thesis by auto
  qed
qed

lemma first_index_absent: "a \<notin> set xs \<Longrightarrow> first_index (\<lambda>x. x = a) xs = None"
  by (induction xs) auto

lemma removeAction_present:
  assumes "originalTarget (objects m a) = Some t" and "elementsMap m t = Some e"
    and "distinct (actions (elements m e))" and "k < length (actions (elements m e))"
    and "actions (elements m e) ! k = a"
  shows "removeAction (Some a) m
         = Inr (m\<lparr>elements := (elements m)(e := splice_action k (elements m e))\<rparr>)"
  using assms first_index_nth [of "actions (elements m e)" k]
  by (simp add: removeAction_def)

lemma removeAction_absent:
  assumes "originalTarget (objects m a) = Some t" and "elementsMap m t = Some e"
    and "a \<notin> set (actions (elements m e))"
  shows "removeAction (Some a) m = Inr m"
  using assms by (simp add: removeAction_def first_index_absent)

lemma nth_notin_remove_nth:
  assumes "distinct xs" and "k < length xs"
  shows "xs ! k \<notin> set (take k xs @ drop (Suc k) xs)"
proof -
  have "xs = take k xs @ xs ! k # drop (Suc k) xs" using assms(2) by (simp add: id_take_nth_drop)
  then have "distinct (take k xs @ xs ! k # drop (Suc k) xs)" using assms(1) by simp
  then show ?thesis by auto
qed

lemma distinct_remove_nth:
  assumes "distinct xs"
  shows "distinct (take k xs @ drop (Suc k) xs)"
proof -
  have "distinct (take k xs @ drop k xs)" using assms by simp
  then have "set (take k xs) \<inter> set (drop k xs) = {}" by (simp only: distinct_append)
  moreover have "set (drop (Suc k) xs) \<subseteq> set (drop k xs)"
    by (rule set_drop_subset_set_drop) simp
  ultimately have "set (take k xs) \<inter> set (drop (Suc k) xs) = {}" by blast
  then show ?thesis using assms by simp
qed

text \<open>One turn of the inner loop.\<close>

lemma update_actions_turn:
  assumes tg: "target_h (elements m e) = Some t" and mp: "elementsMap m t = Some e"
    and dist: "distinct (actions (elements m e))"
    and idx: "actionIndex (elements m e) = int k" and k: "k < length (actions (elements m e))"
    and a: "a = actions (elements m e) ! k"
    and ot: "originalTarget (objects m a) = Some t"
    and sc: "script (objects m a) = [] \<or> script (objects m a) = [CbRemoveAction a]"
  shows "update_actions dt e m =
         update_actions dt e
           (m\<lparr>stepped := stepped m @ [(a, dt * speed_o (objects m a))],
              objects := (objects m)(a :=
                 (if isDone_after (objects m a) (steps (objects m a) + 1)
                  then (objects m a)\<lparr>steps := steps (objects m a) + 1, target := None\<rparr>
                  else (objects m a)\<lparr>steps := steps (objects m a) + 1\<rparr>)),
              elements := (elements m)(e := (elements m e)
                 \<lparr>currentAction := None,
                  actions := (if script (objects m a) = [CbRemoveAction a]
                                 \<or> isDone_after (objects m a) (steps (objects m a) + 1)
                              then take k (actions (elements m e)) @ drop (Suc k) (actions (elements m e))
                              else actions (elements m e)),
                  actionIndex := (if script (objects m a) = [CbRemoveAction a]
                                    \<or> isDone_after (objects m a) (steps (objects m a) + 1)
                                  then int k else int k + 1)\<rparr>)\<rparr>)"
proof -
  let ?as = "actions (elements m e)"
  have notin: "a \<notin> set (take k ?as @ drop (Suc k) ?as)"
    using nth_notin_remove_nth [OF dist k] a by simp
  have fi: "first_index (\<lambda>x. x = a) ?as = Some k"
    using first_index_nth [OF dist k] a by simp
  have fn: "first_index (\<lambda>x. x = a) (take k ?as @ drop (Suc k) ?as) = None"
    using notin by (rule first_index_absent)
  obtain el where el: "elements m e = el" by simp
  show ?thesis
  proof (cases m)
    case (fields p1 p2 p3 p4 p5 p6 p7 p8)
    show ?thesis
    proof (cases "p5 e")
      case (fields q1 q2 q3 q4 q5 q6)
      from sc show ?thesis
      proof
        assume s: "script (objects m a) = []"
        show ?thesis
          apply (subst update_actions.simps)
          using tg mp idx k a ot s fi fn \<open>m = _\<close> \<open>p5 e = _\<close>
          apply (simp add: Let_def step_action_def isDone_action_def stop_action_def removeAction_def
              splice_action_def Action_stop_def)
          done
      next
        assume s: "script (objects m a) = [CbRemoveAction a]"
        show ?thesis
          apply (subst update_actions.simps)
          using tg mp idx k a ot s fi fn \<open>m = _\<close> \<open>p5 e = _\<close>
          apply (simp add: Let_def step_action_def isDone_action_def stop_action_def removeAction_def
              splice_action_def Action_stop_def)
          done
      qed
    qed
  qed
qed

lemma update_actions_run:
  assumes "target_h (elements m e) = Some t" and "elementsMap m t = Some e"
    and "actions (elements m e) = as" and "distinct as"
    and "actionIndex (elements m e) = int k" and "k \<le> length as"
    and "\<forall>a\<in>set as. originalTarget (objects m a) = Some t
           \<and> (script (objects m a) = [] \<or> script (objects m a) = [CbRemoveAction a])"
    and "length as - k = n"
  shows "\<exists>m'. update_actions dt e m = Some (Inr m')
     \<and> stepped m' = stepped m @ map (\<lambda>a. (a, dt * speed_o (objects m a))) (drop k as)
     \<and> elementsArr m' = elementsArr m \<and> elementsMap m' = elementsMap m
     \<and> (\<forall>e'. e' \<noteq> e \<longrightarrow> elements m' e' = elements m e')
     \<and> target_h (elements m' e) = Some t
     \<and> lock (elements m' e) = lock (elements m e)
     \<and> paused (elements m' e) = paused (elements m e)
     \<and> (\<forall>b. originalTarget (objects m' b) = originalTarget (objects m b)
            \<and> script (objects m' b) = script (objects m b)
            \<and> speed_o (objects m' b) = speed_o (objects m b))"
  using assms
proof (induction n arbitrary: m as k)
  case 0
  then have "\<not> actionIndex (elements m e) < int (length (actions (elements m e)))" by simp
  then have "update_actions dt e m = Some (Inr m)"
    by (subst update_actions.simps) simp
  with 0 show ?case by simp
next
  case (Suc n)
  then have k: "k < length (actions (elements m e))" by simp
  define a where "a = as ! k"
  have ain: "a \<in> set as" using Suc.prems k by (simp add: a_def)
  define rm where "rm \<longleftrightarrow> script (objects m a) = [CbRemoveAction a]
               \<or> isDone_after (objects m a) (steps (objects m a) + 1)"
  define as' where "as' = (if rm then take k as @ drop (Suc k) as else as)"
  define k' where "k' = (if rm then k else Suc k)"
  define m1 where "m1 = m\<lparr>stepped := stepped m @ [(a, dt * speed_o (objects m a))],
              objects := (objects m)(a :=
                 (if isDone_after (objects m a) (steps (objects m a) + 1)
                  then (objects m a)\<lparr>steps := steps (objects m a) + 1, target := None\<rparr>
                  else (objects m a)\<lparr>steps := steps (objects m a) + 1\<rparr>)),
              elements := (elements m)(e := (elements m e)
                 \<lparr>currentAction := None,
                  actions := (if script (objects m a) = [CbRemoveAction a]
                                 \<or> isDone_after (objects m a) (steps (objects m a) + 1)
                              then take k (actions (elements m e)) @ drop (Suc k) (actions (elements m e))
                              else actions (elements m e)),
                  actionIndex := (if script (objects m a) = [CbRemoveAction a]
                                    \<or> isDone_after (objects m a) (steps (objects m a) + 1)
                                  then int k else int k + 1)\<rparr>)\<rparr>"
  have turn: "update_actions dt e m = update_actions dt e m1"
    unfolding m1_def
  proof (rule update_actions_turn [where t = t and k = k])
    show "target_h (elements m e) = Some t" by (rule Suc.prems(1))
    show "elementsMap m t = Some e" by (rule Suc.prems(2))
    show "distinct (actions (elements m e))" using Suc.prems(3,4) by simp
    show "actionIndex (elements m e) = int k" by (rule Suc.prems(5))
    show "k < length (actions (elements m e))" by (rule k)
    show "a = actions (elements m e) ! k" using Suc.prems(3) by (simp add: a_def)
    show "originalTarget (objects m a) = Some t" using Suc.prems(7) ain by blast
    show "script (objects m a) = [] \<or> script (objects m a) = [CbRemoveAction a]"
      using Suc.prems(7) ain by blast
  qed
  have st: "originalTarget (objects m1 b) = originalTarget (objects m b)
            \<and> script (objects m1 b) = script (objects m b)
            \<and> speed_o (objects m1 b) = speed_o (objects m b)" for b
    by (simp add: m1_def)
  have p1: "target_h (elements m1 e) = Some t" using Suc.prems(1) by (simp add: m1_def)
  have p2: "elementsMap m1 t = Some e" using Suc.prems(2) by (simp add: m1_def)
  have p3: "actions (elements m1 e) = as'" using Suc.prems(3) by (simp add: m1_def as'_def rm_def)
  have p4: "distinct as'" using Suc.prems(4) distinct_remove_nth [of as k] by (simp add: as'_def)
  have p5: "actionIndex (elements m1 e) = int k'" by (simp add: m1_def k'_def rm_def)
  have p6: "k' \<le> length as'" using Suc.prems(3) k by (auto simp: k'_def as'_def)
  have sub: "set as' \<subseteq> set as" by (auto simp: as'_def dest: in_set_takeD in_set_dropD)
  have p7: "\<forall>x\<in>set as'. originalTarget (objects m1 x) = Some t
           \<and> (script (objects m1 x) = [] \<or> script (objects m1 x) = [CbRemoveAction x])"
  proof
    fix x assume "x \<in> set as'"
    then have "x \<in> set as" using sub by blast
    then show "originalTarget (objects m1 x) = Some t
           \<and> (script (objects m1 x) = [] \<or> script (objects m1 x) = [CbRemoveAction x])"
      using Suc.prems(7) st [of x] by simp
  qed
  have p8: "length as' - k' = n" using Suc.prems(3,8) k by (auto simp: k'_def as'_def)
  from Suc.IH [OF p1 p2 p3 p4 p5 p6 p7 p8]
  obtain m' where r: "update_actions dt e m1 = Some (Inr m')"
     "stepped m' = stepped m1 @ map (\<lambda>a. (a, dt * speed_o (objects m1 a))) (drop k' as')"
     "elementsArr m' = elementsArr m1" "elementsMap m' = elementsMap m1"
     "\<forall>e'. e' \<noteq> e \<longrightarrow> elements m' e' = elements m1 e'"
     "target_h (elements m' e) = Some t"
     "lock (elements m' e) = lock (elements m1 e)"
     "paused (elements m' e) = paused (elements m1 e)"
     "\<forall>b. originalTarget (objects m' b) = originalTarget (objects m1 b)
            \<and> script (objects m' b) = script (objects m1 b)
            \<and> speed_o (objects m' b) = speed_o (objects m1 b)"
    by blast
  have dr: "drop k' as' = drop (Suc k) as" using Suc.prems(3) k by (auto simp: k'_def as'_def)
  have dk: "drop k as = a # drop (Suc k) as"
    using Suc.prems(3) k by (simp add: a_def Cons_nth_drop_Suc)
  have s1: "stepped m1 = stepped m @ [(a, dt * speed_o (objects m a))]" by (simp add: m1_def)
  have c1: "stepped m' = stepped m @ map (\<lambda>a. (a, dt * speed_o (objects m a))) (drop k as)"
    using r(2) dr dk s1 st by simp
  have c2: "elementsArr m' = elementsArr m" using r(3) by (simp add: m1_def)
  have c3: "elementsMap m' = elementsMap m" using r(4) by (simp add: m1_def)
  have c4: "\<forall>e'. e' \<noteq> e \<longrightarrow> elements m' e' = elements m e'" using r(5) by (simp add: m1_def)
  have c5: "lock (elements m' e) = lock (elements m e)" using r(7) by (simp add: m1_def)
  have c6: "paused (elements m' e) = paused (elements m e)" using r(8) by (simp add: m1_def)
  have c7: "\<forall>b. originalTarget (objects m' b) = originalTarget (objects m b)
            \<and> script (objects m' b) = script (objects m b)
            \<and> speed_o (objects m' b) = speed_o (objects m b)"
    using r(9) st by simp
  show ?case
    using turn r(1) c1 c2 c3 c4 r(6) c5 c6 c7 by (intro exI [of _ m']) simp
qed

lemma record_ok_preserved:
  assumes "(record_ok m e' \<and> removes_only_itself m e')" and "elements m' e' = elements m e'"
    and "\<And>t'. target_h (elements m e') = Some t' \<Longrightarrow> elementsMap m' t' = elementsMap m t'"
    and "\<And>b. originalTarget (objects m' b) = originalTarget (objects m b)
            \<and> script (objects m' b) = script (objects m b)"
  shows "(record_ok m' e' \<and> removes_only_itself m' e')"
  using assms by (auto simp: record_ok_def removes_only_itself_def list_all_iff split: option.splits)

lemma steps_of_record_preserved:
  assumes "elements m' e' = elements m e'"
    and "\<And>b. speed_o (objects m' b) = speed_o (objects m b)"
  shows "steps_of_record dt m' e' = steps_of_record dt m e'"
  using assms by (simp add: steps_of_record_def)

text \<open>One turn of the outer loop, up to the test of the emptied list.\<close>

lemma update_elements_turn:
  assumes arr: "elementsArr m = pre @ e # es" and wf: "(record_ok m e \<and> removes_only_itself m e)"
  shows "\<exists>m3 t. target_h (elements m e) = Some t
     \<and> update_elements dt (int (length pre)) m =
         (if actions (elements m3 e) = []
          then update_elements dt (int (length pre))
                 (putElement e (m3\<lparr>elementsMap := (elementsMap m3)(t := None),
                                   elementsArr := remove1 e (elementsArr m3)\<rparr>))
          else update_elements dt (int (length pre) + 1) m3)
     \<and> stepped m3 = stepped m @ (if paused (elements m e) then [] else steps_of_record dt m e)
     \<and> elementsArr m3 = elementsArr m \<and> elementsMap m3 = elementsMap m
     \<and> (\<forall>e'. e' \<noteq> e \<longrightarrow> elements m3 e' = elements m e')
     \<and> (\<forall>b. originalTarget (objects m3 b) = originalTarget (objects m b)
            \<and> script (objects m3 b) = script (objects m b)
            \<and> speed_o (objects m3 b) = speed_o (objects m b))"
proof -
  from wf obtain t where tg: "target_h (elements m e) = Some t"
    and mp: "elementsMap m t = Some e" and nl: "\<not> lock (elements m e)"
    and dist: "distinct (actions (elements m e))"
    and acts: "\<forall>a\<in>set (actions (elements m e)). originalTarget (objects m a) = Some t
           \<and> (script (objects m a) = [] \<or> script (objects m a) = [CbRemoveAction a])"
    by (auto simp: record_ok_def removes_only_itself_def list_all_iff split: option.splits)
  have nth: "elementsArr m ! length pre = e" using arr by simp
  have len: "length pre < length (elementsArr m)" using arr by simp
  show ?thesis
  proof (cases "paused (elements m e)")
    case True
    define m3 where "m3 = m\<lparr>current := Some e\<rparr>"
    have del: "deleteHashElement e m3
         = Inr (True, putElement e (m3\<lparr>elementsMap := (elementsMap m3)(t := None),
                                        elementsArr := remove1 e (elementsArr m3)\<rparr>))"
      using tg mp nl by (simp add: deleteHashElement_def m3_def)
    have eq: "update_elements dt (int (length pre)) m =
         (if actions (elements m3 e) = []
          then update_elements dt (int (length pre))
                 (putElement e (m3\<lparr>elementsMap := (elementsMap m3)(t := None),
                                   elementsArr := remove1 e (elementsArr m3)\<rparr>))
          else update_elements dt (int (length pre) + 1) m3)"
      apply (subst update_elements.simps)
      using nth len True del
      apply (simp add: Let_def m3_def)
      done
    show ?thesis
      using tg eq True by (intro exI [of _ m3] exI [of _ t]) (simp add: m3_def)
  next
    case False
    define m1 where "m1 = m\<lparr>current := Some e,
        elements := (elements m)(e := (elements m e)\<lparr>lock := True, actionIndex := 0\<rparr>)\<rparr>"
    have "\<exists>m'. update_actions dt e m1 = Some (Inr m')
     \<and> stepped m' = stepped m1 @ map (\<lambda>a. (a, dt * speed_o (objects m1 a))) (drop 0 (actions (elements m e)))
     \<and> elementsArr m' = elementsArr m1 \<and> elementsMap m' = elementsMap m1
     \<and> (\<forall>e'. e' \<noteq> e \<longrightarrow> elements m' e' = elements m1 e')
     \<and> target_h (elements m' e) = Some t
     \<and> lock (elements m' e) = lock (elements m1 e)
     \<and> paused (elements m' e) = paused (elements m1 e)
     \<and> (\<forall>b. originalTarget (objects m' b) = originalTarget (objects m1 b)
            \<and> script (objects m' b) = script (objects m1 b)
            \<and> speed_o (objects m' b) = speed_o (objects m1 b))"
    proof (rule update_actions_run [where k = 0])
      show "target_h (elements m1 e) = Some t" using tg by (simp add: m1_def)
      show "elementsMap m1 t = Some e" using mp by (simp add: m1_def)
      show "actions (elements m1 e) = actions (elements m e)" by (simp add: m1_def)
      show "distinct (actions (elements m e))" by (rule dist)
      show "actionIndex (elements m1 e) = int 0" by (simp add: m1_def)
      show "0 \<le> length (actions (elements m e))" by simp
      show "\<forall>a\<in>set (actions (elements m e)). originalTarget (objects m1 a) = Some t
           \<and> (script (objects m1 a) = [] \<or> script (objects m1 a) = [CbRemoveAction a])"
        using acts by (simp add: m1_def)
      show "length (actions (elements m e)) - 0 = length (actions (elements m e))" by simp
    qed
    then obtain m2 where r: "update_actions dt e m1 = Some (Inr m2)"
      "stepped m2 = stepped m1 @ map (\<lambda>a. (a, dt * speed_o (objects m1 a))) (drop 0 (actions (elements m e)))"
      "elementsArr m2 = elementsArr m1" "elementsMap m2 = elementsMap m1"
      "\<forall>e'. e' \<noteq> e \<longrightarrow> elements m2 e' = elements m1 e'"
      "target_h (elements m2 e) = Some t"
      "\<forall>b. originalTarget (objects m2 b) = originalTarget (objects m1 b)
            \<and> script (objects m2 b) = script (objects m1 b)
            \<and> speed_o (objects m2 b) = speed_o (objects m1 b)"
      by blast
    define m3 where "m3 = m2\<lparr>elements := (elements m2)(e := (elements m2 e)\<lparr>lock := False\<rparr>)\<rparr>"
    have del: "deleteHashElement e m3
         = Inr (True, putElement e (m3\<lparr>elementsMap := (elementsMap m3)(t := None),
                                        elementsArr := remove1 e (elementsArr m3)\<rparr>))"
      using r(4,6) mp by (simp add: deleteHashElement_def m3_def m1_def)
    have r1: "update_actions dt e
        (m\<lparr>current := Some e,
           elements := (elements m)(e := (elements m e)\<lparr>lock := True, actionIndex := 0\<rparr>)\<rparr>)
        = Some (Inr m2)"
      using r(1) by (simp add: m1_def)
    have del1: "deleteHashElement e
               (m2\<lparr>elements := (elements m2)(e := (elements m2 e)\<lparr>lock := False\<rparr>)\<rparr>)
         = Inr (True, putElement e (m3\<lparr>elementsMap := (elementsMap m3)(t := None),
                                        elementsArr := remove1 e (elementsArr m3)\<rparr>))"
      using del by (simp add: m3_def)
    have eq: "update_elements dt (int (length pre)) m =
         (if actions (elements m3 e) = []
          then update_elements dt (int (length pre))
                 (putElement e (m3\<lparr>elementsMap := (elementsMap m3)(t := None),
                                   elementsArr := remove1 e (elementsArr m3)\<rparr>))
          else update_elements dt (int (length pre) + 1) m3)"
      apply (subst update_elements.simps)
      using nth len False
      apply (simp add: Let_def r1 del1)
      apply (simp add: m3_def)
      done
    have s3: "stepped m3 = stepped m @ steps_of_record dt m e"
      using r(2) by (simp add: m3_def m1_def steps_of_record_def)
    have a3: "elementsArr m3 = elementsArr m" using r(3) by (simp add: m3_def m1_def)
    have b3: "elementsMap m3 = elementsMap m" using r(4) by (simp add: m3_def m1_def)
    have c3: "\<forall>e'. e' \<noteq> e \<longrightarrow> elements m3 e' = elements m e'"
      using r(5) by (simp add: m3_def m1_def)
    have d3: "\<forall>b. originalTarget (objects m3 b) = originalTarget (objects m b)
            \<and> script (objects m3 b) = script (objects m b)
            \<and> speed_o (objects m3 b) = speed_o (objects m b)"
      using r(7) by (simp add: m3_def m1_def)
    show ?thesis
      using tg eq False s3 a3 b3 c3 d3 by (intro exI [of _ m3] exI [of _ t]) simp
  qed
qed

lemma update_elements_run:
  assumes "elementsArr m = pre @ es" and "distinct (pre @ es)" and "\<forall>e\<in>set es. (record_ok m e \<and> removes_only_itself m e)"
  shows "\<exists>m'. update_elements dt (int (length pre)) m = Some (Inr m')
     \<and> stepped m' = stepped m @
         concat (map (steps_of_record dt m) (filter (\<lambda>e. \<not> paused (elements m e)) es))"
  using assms
proof (induction es arbitrary: m pre)
  case Nil
  then have "update_elements dt (int (length pre)) m = Some (Inr m)"
    by (subst update_elements.simps) simp
  then show ?case by simp
next
  case (Cons e es)
  have wfe: "(record_ok m e \<and> removes_only_itself m e)" using Cons.prems(3) by simp
  from update_elements_turn [OF Cons.prems(1) wfe, of dt]
  obtain m3 t where tg: "target_h (elements m e) = Some t"
    and eq: "update_elements dt (int (length pre)) m =
         (if actions (elements m3 e) = []
          then update_elements dt (int (length pre))
                 (putElement e (m3\<lparr>elementsMap := (elementsMap m3)(t := None),
                                   elementsArr := remove1 e (elementsArr m3)\<rparr>))
          else update_elements dt (int (length pre) + 1) m3)"
    and s3: "stepped m3 = stepped m @ (if paused (elements m e) then [] else steps_of_record dt m e)"
    and a3: "elementsArr m3 = elementsArr m" and b3: "elementsMap m3 = elementsMap m"
    and c3: "\<forall>e'. e' \<noteq> e \<longrightarrow> elements m3 e' = elements m e'"
    and d3: "\<forall>b. originalTarget (objects m3 b) = originalTarget (objects m b)
            \<and> script (objects m3 b) = script (objects m b)
            \<and> speed_o (objects m3 b) = speed_o (objects m b)"
    by blast
  have mp: "elementsMap m t = Some e"
    using wfe tg by (simp add: record_ok_def removes_only_itself_def)
  have ne: "\<And>e'. e' \<in> set es \<Longrightarrow> e' \<noteq> e" using Cons.prems(2) by auto
  have enp: "e \<notin> set pre" using Cons.prems(2) by auto
  define m5 where "m5 = (if actions (elements m3 e) = []
     then putElement e (m3\<lparr>elementsMap := (elementsMap m3)(t := None),
                           elementsArr := remove1 e (elementsArr m3)\<rparr>)
     else m3)"
  define pre5 where "pre5 = (if actions (elements m3 e) = [] then pre else pre @ [e])"
  have eq5: "update_elements dt (int (length pre)) m = update_elements dt (int (length pre5)) m5"
    using eq by (simp add: m5_def pre5_def add.commute)
  have arr5: "elementsArr m5 = pre5 @ es"
    using a3 Cons.prems(1) enp by (simp add: m5_def pre5_def putElement_def remove1_append)
  have dist5: "distinct (pre5 @ es)" using Cons.prems(2) by (auto simp: pre5_def)
  have el5: "\<And>e'. e' \<in> set es \<Longrightarrow> elements m5 e' = elements m e'"
    using c3 ne by (simp add: m5_def putElement_def)
  have ob5: "\<And>b. originalTarget (objects m5 b) = originalTarget (objects m b)
            \<and> script (objects m5 b) = script (objects m b)
            \<and> speed_o (objects m5 b) = speed_o (objects m b)"
    using d3 by (simp add: m5_def putElement_def)
  have st5: "stepped m5 = stepped m3" by (simp add: m5_def putElement_def)
  have wf5: "\<forall>e'\<in>set es. (record_ok m5 e' \<and> removes_only_itself m5 e')"
  proof
    fix e' assume in': "e' \<in> set es"
    then have wf': "(record_ok m e' \<and> removes_only_itself m e')" using Cons.prems(3) by simp
    show "(record_ok m5 e' \<and> removes_only_itself m5 e')"
    proof (rule record_ok_preserved [OF wf'])
      show "elements m5 e' = elements m e'" using el5 in' by simp
      show "\<And>b. originalTarget (objects m5 b) = originalTarget (objects m b)
            \<and> script (objects m5 b) = script (objects m b)" using ob5 by simp
      fix t' assume t': "target_h (elements m e') = Some t'"
      then have "elementsMap m t' = Some e'" using wf' by (simp add: record_ok_def removes_only_itself_def)
      then have "t' \<noteq> t" using mp ne [OF in'] by auto
      then show "elementsMap m5 t' = elementsMap m t'"
        using b3 by (simp add: m5_def putElement_def)
    qed
  qed
  from Cons.IH [OF arr5 dist5 wf5]
  obtain m' where r: "update_elements dt (int (length pre5)) m5 = Some (Inr m')"
    "stepped m' = stepped m5 @
         concat (map (steps_of_record dt m5) (filter (\<lambda>e. \<not> paused (elements m5 e)) es))"
    by blast
  have f5: "filter (\<lambda>e. \<not> paused (elements m5 e)) es = filter (\<lambda>e. \<not> paused (elements m e)) es"
    using el5 by (intro filter_cong) auto
  have g5: "map (steps_of_record dt m5) (filter (\<lambda>e. \<not> paused (elements m e)) es)
          = map (steps_of_record dt m) (filter (\<lambda>e. \<not> paused (elements m e)) es)"
  proof (rule map_cong [OF refl])
    fix x assume "x \<in> set (filter (\<lambda>e. \<not> paused (elements m e)) es)"
    then have "x \<in> set es" by simp
    then show "steps_of_record dt m5 x = steps_of_record dt m x"
      using el5 ob5 by (intro steps_of_record_preserved) auto
  qed
  have "stepped m' = stepped m @
         concat (map (steps_of_record dt m) (filter (\<lambda>e. \<not> paused (elements m e)) (e # es)))"
    using r(2) st5 s3 f5 g5 by simp
  then show ?case using eq5 r(1) by simp
qed

text \<open>
  C3. The manager is in order, and the host callbacks of its actions ask for nothing or
  for \<open>removeAction\<close> of the action whose \<open>step\<close> is running, the one the loop is at.
  Then \<open>update(dt)\<close> returns without an exception, and the calls of \<open>step\<close> it has made
  are exactly those due: every action of every record that is not paused, once, in
  order. So no action of the same or of a later record is skipped or stepped twice,
  however many actions remove themselves or are removed as done.
\<close>

theorem update_steps_each_action_once:
  assumes "manager_ok m" and "callbacks_remove_current m"
  shows "\<exists>m'. update dt m = Some (Inr m') \<and> stepped m' = stepped m @ steps_due dt m"
proof -
  have 1: "elementsArr m = [] @ elementsArr m" by simp
  have 2: "distinct ([] @ elementsArr m)" using assms(1) by (simp add: manager_ok_def)
  have 3: "\<forall>e\<in>set (elementsArr m). record_ok m e \<and> removes_only_itself m e"
    using assms by (simp add: manager_ok_def callbacks_remove_current_def list_all_iff)
  from update_elements_run [OF 1 2 3, of dt] show ?thesis
    by (simp add: update_def steps_due_def)
qed

lemma example_manager_eq:
  "example_manager =
     \<lparr>pool = [], elementsMap = [1 \<mapsto> 0, 2 \<mapsto> 1], elementsArr = [0, 1], current = None,
      elements = (\<lambda>_. HashElement_new)
        (0 := \<lparr>actions = [10, 11, 12], target_h = Some 1, actionIndex = 0, currentAction = None,
               paused = False, lock = False\<rparr>,
         1 := \<lparr>actions = [20], target_h = Some 2, actionIndex = 0, currentAction = None,
               paused = False, lock = False\<rparr>),
      allocated = 2,
      objects = example_objects
        (10 := (example_objects 10)\<lparr>originalTarget := Some 1, target := Some 1\<rparr>,
         11 := (example_objects 11)\<lparr>originalTarget := Some 1, target := Some 1\<rparr>,
         12 := (example_objects 12)\<lparr>originalTarget := Some 1, target := Some 1\<rparr>,
         20 := (example_objects 20)\<lparr>originalTarget := Some 2, target := Some 2\<rparr>),
      stepped = []\<rparr>"
  by (simp add: example_manager_def Manager_defs Let_def fun_upd_twist)

theorem update_steps_each_action_once_witness:
  "manager_ok example_manager \<and> callbacks_remove_current example_manager
   \<and> (\<exists>m'. update (1 / 60) example_manager = Some (Inr m')
         \<and> stepped m' = [(10, 1 / 60), (11, 1 / 60), (12, 1 / 60), (20, 1 / 60)])"
proof -
  have h1: "manager_ok example_manager"
    by (simp add: example_manager_eq manager_ok_def record_ok_def example_objects_def)
  have h2: "callbacks_remove_current example_manager"
    by (simp add: example_manager_eq callbacks_remove_current_def removes_only_itself_def
        example_objects_def)
  have due: "steps_due (1 / 60) example_manager
             = [(10, 1 / 60), (11, 1 / 60), (12, 1 / 60), (20, 1 / 60)]"
    by (simp add: example_manager_eq steps_due_def steps_of_record_def example_objects_def)
  have st: "stepped example_manager = []" by (simp add: example_manager_eq)
  show ?thesis
    using h1 h2 update_steps_each_action_once [OF h1 h2, of "1 / 60"] by (simp add: due st)
qed

end
